theory Spec2Isabelle
  imports Main "HOL-Library.Word" "HOL-Library.AList"
begin

unbundle bit_operations_syntax

section \<open>Values and dictionaries\<close>

text \<open>
  A Python \<open>str\<close> is held as the list of bytes of its UTF-8 encoding, so the empty
  \<open>str\<close> is the empty list and truthiness of a \<open>str\<close> is non-emptiness. A
  \<open>dict\<close> is an association list with distinct keys in insertion order: assigning to
  an existing key keeps its position, assigning to a new key appends. A \<open>float\<close>
  number of seconds is held exactly, as its count of microseconds (\<open>VMicros\<close>).
\<close>

type_synonym bytes = string

datatype pyval = VStr string | VInt int | VBool bool | VMicros int

type_synonym event_dict = "(string \<times> pyval) list"

definition dict_set :: "'k \<Rightarrow> 'v \<Rightarrow> ('k \<times> 'v) list \<Rightarrow> ('k \<times> 'v) list" where
  "dict_set k v d = AList.update k v d"

definition dict_get :: "('k \<times> 'v) list \<Rightarrow> 'k \<Rightarrow> 'v \<Rightarrow> 'v" where
  "dict_get d k dflt = (case map_of d k of None \<Rightarrow> dflt | Some v \<Rightarrow> v)"

definition setdefault :: "'k \<Rightarrow> 'v \<Rightarrow> ('k \<times> 'v) list \<Rightarrow> ('k \<times> 'v) list" where
  "setdefault k v d = (case map_of d k of None \<Rightarrow> dict_set k v d | Some u \<Rightarrow> d)"

definition dict_of :: "('k \<times> 'v) list \<Rightarrow> ('k \<times> 'v) list" where
  "dict_of pairs = foldl (\<lambda>d kv. dict_set (fst kv) (snd kv) d) [] pairs"

section \<open>uuid4 and its string form\<close>

text \<open>
  \<open>uuid4()\<close> reads 16 random bytes as a 128-bit integer, clears and sets the variant
  and version bits, and \<open>str\<close> prints the 32 hexadecimal digits in groups of
  8-4-4-4-12.
\<close>

definition hexdigit :: "nat \<Rightarrow> char" where
  "hexdigit n = ''0123456789abcdef'' ! (n mod 16)"

definition uuid4 :: "128 word \<Rightarrow> 128 word" where
  "uuid4 r = (((r AND NOT (push_bit 48 0xc000)) OR push_bit 48 0x8000)
                AND NOT (push_bit 64 0xf000)) OR push_bit 76 4"

definition hex32 :: "128 word \<Rightarrow> string" where
  "hex32 x = map (\<lambda>i. hexdigit (unat (drop_bit (4 * i) x AND 0xf))) (rev [0..<32])"

definition str_uuid :: "128 word \<Rightarrow> string" where
  "str_uuid x = (let h = hex32 x in
     take 8 h @ ''-'' @ take 4 (drop 8 h) @ ''-'' @ take 4 (drop 12 h) @ ''-''
       @ take 4 (drop 16 h) @ ''-'' @ drop 20 h)"

section \<open>datetime\<close>

text \<open>
  A naive \<open>datetime\<close>, as \<open>datetime.utcnow()\<close> returns it. \<open>isoformat()\<close> prints
  \<open>YYYY-MM-DDTHH:MM:SS\<close> and appends \<open>.ffffff\<close> only when the microsecond field is
  not zero. The difference of two datetimes is held in microseconds.
\<close>

record datetime =
  year :: nat
  month :: nat
  day :: nat
  hour :: nat
  minute :: nat
  second :: nat
  microsecond :: nat

definition is_leap :: "nat \<Rightarrow> bool" where
  "is_leap y = (y mod 4 = 0 \<and> (y mod 100 \<noteq> 0 \<or> y mod 400 = 0))"

definition days_in_month :: "nat \<Rightarrow> nat \<Rightarrow> nat" where
  "days_in_month y m =
     (if m = 2 \<and> is_leap y then 29 else [0, 31, 28, 31, 30, 31, 30, 31, 31, 30, 31, 30, 31] ! m)"

definition valid_datetime :: "datetime \<Rightarrow> bool" where
  "valid_datetime d = (1 \<le> year d \<and> year d \<le> 9999 \<and> 1 \<le> month d \<and> month d \<le> 12
     \<and> 1 \<le> day d \<and> day d \<le> days_in_month (year d) (month d)
     \<and> hour d < 24 \<and> minute d < 60 \<and> second d < 60 \<and> microsecond d < 1000000)"

definition days_before_year :: "nat \<Rightarrow> nat" where
  "days_before_year y = (let z = y - 1 in z * 365 + z div 4 - z div 100 + z div 400)"

definition days_before_month :: "nat \<Rightarrow> nat \<Rightarrow> nat" where
  "days_before_month y m =
     [0, 0, 31, 59, 90, 120, 151, 181, 212, 243, 273, 304, 334] ! m
       + (if m > 2 \<and> is_leap y then 1 else 0)"

definition toordinal :: "datetime \<Rightarrow> nat" where
  "toordinal d = days_before_year (year d) + days_before_month (year d) (month d) + day d"

definition to_micros :: "datetime \<Rightarrow> int" where
  "to_micros d =
     (int (toordinal d) * 86400 + int (hour d) * 3600 + int (minute d) * 60 + int (second d))
       * 1000000 + int (microsecond d)"

definition elapsed_micros :: "datetime \<Rightarrow> datetime \<Rightarrow> int" where
  "elapsed_micros later earlier = to_micros later - to_micros earlier"

function dec :: "nat \<Rightarrow> string" where
  "dec n = (if n < 10 then [hexdigit n] else dec (n div 10) @ [hexdigit (n mod 10)])"
  by pat_completeness auto
termination
  by (relation "measure id") auto

declare dec.simps [simp del]

definition pad0 :: "nat \<Rightarrow> nat \<Rightarrow> string" where
  "pad0 width n = replicate (width - length (dec n)) CHR ''0'' @ dec n"

definition isoformat :: "datetime \<Rightarrow> string" where
  "isoformat d =
     pad0 4 (year d) @ ''-'' @ pad0 2 (month d) @ ''-'' @ pad0 2 (day d) @ ''T''
       @ pad0 2 (hour d) @ '':'' @ pad0 2 (minute d) @ '':'' @ pad0 2 (second d)
       @ (if microsecond d \<noteq> 0 then ''.'' @ pad0 6 (microsecond d) else '''')"

section \<open>UTF-8\<close>

text \<open>
  \<open>bytes.decode()\<close> is the strict UTF-8 decoder: it raises \<open>UnicodeDecodeError\<close> on a
  byte sequence that is not well-formed UTF-8 (stray continuation bytes, overlong forms,
  surrogates, code points above U+10FFFF, truncated sequences). A decoded \<open>str\<close> is
  held as its UTF-8 bytes, so a successful decode returns the bytes themselves.
\<close>

definition cont :: "nat \<Rightarrow> bool" where
  "cont b = (128 \<le> b \<and> b \<le> 191)"

fun utf8_wf :: "nat list \<Rightarrow> bool" where
  "utf8_wf [] = True"
| "utf8_wf [a] = (a < 128)"
| "utf8_wf [a, b] = (if a < 128 then utf8_wf [b] else 194 \<le> a \<and> a \<le> 223 \<and> cont b)"
| "utf8_wf [a, b, c] =
     (if a < 128 then utf8_wf [b, c]
      else if 194 \<le> a \<and> a \<le> 223 then cont b \<and> utf8_wf [c]
      else if a = 224 then 160 \<le> b \<and> b \<le> 191 \<and> cont c
      else if a = 237 then 128 \<le> b \<and> b \<le> 159 \<and> cont c
      else 225 \<le> a \<and> a \<le> 239 \<and> cont b \<and> cont c)"
| "utf8_wf (a # b # c # d # r) =
     (if a < 128 then utf8_wf (b # c # d # r)
      else if 194 \<le> a \<and> a \<le> 223 then cont b \<and> utf8_wf (c # d # r)
      else if a = 224 then 160 \<le> b \<and> b \<le> 191 \<and> cont c \<and> utf8_wf (d # r)
      else if a = 237 then 128 \<le> b \<and> b \<le> 159 \<and> cont c \<and> utf8_wf (d # r)
      else if 225 \<le> a \<and> a \<le> 239 then cont b \<and> cont c \<and> utf8_wf (d # r)
      else if a = 240 then 144 \<le> b \<and> b \<le> 191 \<and> cont c \<and> cont d \<and> utf8_wf r
      else if a = 244 then 128 \<le> b \<and> b \<le> 143 \<and> cont c \<and> cont d \<and> utf8_wf r
      else 241 \<le> a \<and> a \<le> 243 \<and> cont b \<and> cont c \<and> cont d \<and> utf8_wf r)"

definition decode :: "bytes \<Rightarrow> string option" where
  "decode bs = (if utf8_wf (map of_char bs) then Some bs else None)"

section \<open>Exceptions\<close>

text \<open>
  An exception object raised by the wrapped application is its string form and whether
  it is an instance of \<open>Exception\<close> (a cancellation, say, is not). What a function
  of the model raises is an \<open>error\<close>: an exception of the interpreter or of the
  logging library, by its class, or the application's own exception passed on.
\<close>

datatype exc = Exc (is_Exception: bool) (str_e: string)

datatype error = UnicodeDecodeError | KeyError | AttributeError | TypeError | Propagated exc

section \<open>The logging library's configuration\<close>

text \<open>
  The stages of the processor chain are named; the two stages of this repository are
  \<open>Add_correlation_id\<close> and \<open>Add_timestamp\<close>, the others belong to the logging
  library. What the library's \<open>StackInfoRenderer\<close>, \<open>format_exc_info\<close> and
  \<open>UnicodeDecoder\<close> do to an event dictionary, or that they raise, is a parameter
  \<open>lib\<close> of the model; the other library stages are modelled below. A renderer turns
  what it is given into the text that is printed, which is held as its argument tagged
  with the renderer.

  A configuration is what \<open>structlog.configure\<close> installs: the list of stages, the
  minimum level of the filtering logger class, and whether a logger keeps the
  configuration it was first used with. The logger factory is not a field because it is
  \<open>PrintLoggerFactory\<close> both in \<open>configure_logging\<close> and in the library's defaults.
  A call on a logger is recorded with the exception it raised, if any.
\<close>

datatype processor =
    Merge_contextvars | Add_correlation_id | Add_timestamp | Add_log_level | Add_logger_name
  | StackInfoRenderer | Format_exc_info | UnicodeDecoder | JSONRenderer | ConsoleRenderer

datatype log_method = Debug | Info | Warning | Error | Exception | Critical

fun level_of :: "log_method \<Rightarrow> int" where
  "level_of Debug = 10"
| "level_of Info = 20"
| "level_of Warning = 30"
| "level_of Error = 40"
| "level_of Exception = 40"
| "level_of Critical = 50"

fun level_name :: "log_method \<Rightarrow> string" where
  "level_name Debug = ''debug''"
| "level_name Info = ''info''"
| "level_name Warning = ''warning''"
| "level_name Error = ''error''"
| "level_name Exception = ''error''"
| "level_name Critical = ''critical''"

type_synonym lib = "processor \<Rightarrow> log_method \<Rightarrow> event_dict \<Rightarrow> error + event_dict"

datatype payload = Dict event_dict | JSON_text payload | Console_text event_dict

fun fields_of :: "payload \<Rightarrow> event_dict" where
  "fields_of (Dict ev) = ev"
| "fields_of (JSON_text x) = fields_of x"
| "fields_of (Console_text ev) = ev"

record lconfig =
  processors :: "processor list"
  min_level :: int
  cache_logger_on_first_use :: bool

record log_call =
  call_logger :: string
  call_method :: log_method
  call_event :: string
  call_kwargs :: event_dict
  call_raised :: "error option"

section \<open>ASGI data\<close>

text \<open>
  The fields of an HTTP scope and of a response message that the middleware reads are
  record fields; the keys it reads with a default, \<open>headers\<close> and \<open>query_string\<close>,
  may be absent.
\<close>

record scope =
  scope_type :: string
  http_method :: string
  path :: string
  query_string :: "bytes option"
  headers :: "(bytes \<times> bytes) list option"

record message =
  msg_type :: string
  status :: int
  payload :: bytes

section \<open>The process state\<close>

text \<open>
  \<open>correlation_id_var\<close> is the context variable: \<open>None\<close> while unset, when
  \<open>get()\<close> gives the default \<open>""\<close>. \<open>entropy\<close> is the stream of random 128-bit
  values the operating system hands out and \<open>drawn\<close> counts those already used;
  \<open>clock\<close> and \<open>ticks\<close> do the same for the readings of the UTC clock. \<open>config\<close>
  and \<open>contextvars\<close> are the library's global configuration and bound context, and
  \<open>cached\<close> holds, for each logger that keeps it, the configuration the logger was
  first used with. \<open>calls\<close> lists every call made on a logger, \<open>sink\<close> what was
  printed, and \<open>sent\<close> the messages handed to the server's \<open>send\<close>.
\<close>

record world =
  correlation_id_var :: "string option"
  entropy :: "nat \<Rightarrow> 128 word"
  drawn :: nat
  clock :: "nat \<Rightarrow> datetime"
  ticks :: nat
  config :: lconfig
  cached :: "(string \<times> lconfig) list"
  contextvars :: event_dict
  calls :: "log_call list"
  sink :: "payload list"
  sent :: "message list"

definition var_get :: "world \<Rightarrow> string" where
  "var_get w = (case correlation_id_var w of None \<Rightarrow> '''' | Some v \<Rightarrow> v)"

definition fresh_uuid :: "world \<Rightarrow> string \<times> world" where
  "fresh_uuid w = (str_uuid (uuid4 (entropy w (drawn w))), w\<lparr>drawn := Suc (drawn w)\<rparr>)"

definition utcnow :: "world \<Rightarrow> datetime \<times> world" where
  "utcnow w = (clock w (ticks w), w\<lparr>ticks := Suc (ticks w)\<rparr>)"

section \<open>The correlation context store\<close>

definition get_correlation_id :: "world \<Rightarrow> string \<times> world" where
  "get_correlation_id w = (if var_get w \<noteq> '''' then (var_get w, w) else fresh_uuid w)"

definition set_correlation_id :: "string option \<Rightarrow> world \<Rightarrow> string \<times> world" where
  "set_correlation_id correlation_id w =
     (let (cid, w1) = (case correlation_id of
                         None \<Rightarrow> fresh_uuid w
                       | Some c \<Rightarrow> if c \<noteq> '''' then (c, w) else fresh_uuid w)
      in (cid, w1\<lparr>correlation_id_var := Some cid\<rparr>))"

fun reads :: "nat \<Rightarrow> world \<Rightarrow> string list \<times> world" where
  "reads 0 w = ([], w)"
| "reads (Suc n) w =
     (let (c, w1) = get_correlation_id w; (cs, w2) = reads n w1 in (c # cs, w2))"

section \<open>The processors of this repository\<close>

definition add_correlation_id ::
  "string \<Rightarrow> log_method \<Rightarrow> event_dict \<Rightarrow> world \<Rightarrow> event_dict \<times> world" where
  "add_correlation_id logger method_name event_dict w =
     (let (cid, w1) = get_correlation_id w
      in if cid \<noteq> '''' then (dict_set ''correlation_id'' (VStr cid) event_dict, w1)
         else (event_dict, w1))"

definition add_timestamp ::
  "string \<Rightarrow> log_method \<Rightarrow> event_dict \<Rightarrow> world \<Rightarrow> event_dict \<times> world" where
  "add_timestamp logger method_name event_dict w =
     (let (now, w1) = utcnow w
      in (dict_set ''timestamp'' (VStr (isoformat now @ ''Z'')) event_dict, w1))"

section \<open>configure_logging\<close>

text \<open>
  \<open>configure_logging\<close> builds the list of stages, looks the level name up, and
  installs both, together with the request that a logger keep the configuration it is
  first used with; a level name that \<open>logging\<close> does not know makes the library's
  choice of the filtering logger fail with \<open>KeyError\<close> before anything is installed.
  It then binds \<open>service\<close> and \<open>environment\<close> in the library's context.
\<close>

definition getLevelName :: "string \<Rightarrow> int option" where
  "getLevelName level = map_of
     [(''CRITICAL'', 50), (''FATAL'', 50), (''ERROR'', 40), (''WARN'', 30), (''WARNING'', 30),
      (''INFO'', 20), (''DEBUG'', 10), (''NOTSET'', 0)] level"

definition build_processors :: "bool \<Rightarrow> processor list" where
  "build_processors json_logs =
     [Merge_contextvars, Add_correlation_id, Add_timestamp, Add_log_level, Add_logger_name,
      StackInfoRenderer, Format_exc_info, UnicodeDecoder]
     @ (if json_logs then [JSONRenderer] else [ConsoleRenderer])"

definition configure_logging ::
  "string \<Rightarrow> bool \<Rightarrow> string \<Rightarrow> string \<Rightarrow> world \<Rightarrow> error + world" where
  "configure_logging level json_logs service_name environment w =
     (let ps = build_processors json_logs
      in case getLevelName level of
           None \<Rightarrow> Inl KeyError
         | Some n \<Rightarrow>
             Inr (w\<lparr>config := \<lparr>processors = ps, min_level = n,
                               cache_logger_on_first_use = True\<rparr>,
                    contextvars := dict_set ''environment'' (VStr environment)
                                     (dict_set ''service'' (VStr service_name) (contextvars w))\<rparr>))"

section \<open>The stages of the chain\<close>

text \<open>
  A stage is handed what the stage before it returned. On an event dictionary:
  \<open>merge_contextvars\<close> adds each bound context variable whose key the event does not
  have; the two stages of this repository are the functions above; \<open>add_log_level\<close>
  sets \<open>level\<close> to the name of the method, which is \<open>error\<close> for \<open>exception\<close>;
  \<open>add_logger_name\<close> reads the attribute \<open>name\<close> of the logger that the library
  wraps, which is a \<open>PrintLogger\<close> and has no such attribute (nor has any value of an
  event a \<open>name\<close>, should the event hold a \<open>_record\<close>), so this stage raises
  \<open>AttributeError\<close>; a renderer returns text; the three remaining stages are \<open>lib\<close>.
  On text, which a stage finds when it follows a renderer: the JSON renderer renders
  the text, assignment of a key raises \<open>TypeError\<close> (in the two stages of this
  repository after the id or the time has been read), and the dictionary methods that
  the other stages call raise \<open>AttributeError\<close>. After a stage has raised, no later
  stage runs.
\<close>

definition merge_contextvars :: "event_dict \<Rightarrow> event_dict \<Rightarrow> event_dict" where
  "merge_contextvars ctx event_dict = foldl (\<lambda>d kv. setdefault (fst kv) (snd kv) d) event_dict ctx"

fun stage_on_dict ::
  "lib \<Rightarrow> string \<Rightarrow> log_method \<Rightarrow> processor \<Rightarrow> event_dict \<Rightarrow> world \<Rightarrow> (error + payload) \<times> world" where
  "stage_on_dict lib lg m Merge_contextvars ev w =
     (Inr (Dict (merge_contextvars (contextvars w) ev)), w)"
| "stage_on_dict lib lg m Add_correlation_id ev w =
     (let (ev1, w1) = add_correlation_id lg m ev w in (Inr (Dict ev1), w1))"
| "stage_on_dict lib lg m Add_timestamp ev w =
     (let (ev1, w1) = add_timestamp lg m ev w in (Inr (Dict ev1), w1))"
| "stage_on_dict lib lg m Add_log_level ev w =
     (Inr (Dict (dict_set ''level'' (VStr (level_name m)) ev)), w)"
| "stage_on_dict lib lg m Add_logger_name ev w = (Inl AttributeError, w)"
| "stage_on_dict lib lg m JSONRenderer ev w = (Inr (JSON_text (Dict ev)), w)"
| "stage_on_dict lib lg m ConsoleRenderer ev w = (Inr (Console_text ev), w)"
| "stage_on_dict lib lg m p ev w =
     (case lib p m ev of Inl err \<Rightarrow> (Inl err, w) | Inr ev1 \<Rightarrow> (Inr (Dict ev1), w))"

fun stage_on_text :: "processor \<Rightarrow> payload \<Rightarrow> world \<Rightarrow> (error + payload) \<times> world" where
  "stage_on_text Add_correlation_id text w = (Inl TypeError, snd (get_correlation_id w))"
| "stage_on_text Add_timestamp text w = (Inl TypeError, snd (utcnow w))"
| "stage_on_text Add_log_level text w = (Inl TypeError, w)"
| "stage_on_text JSONRenderer text w = (Inr (JSON_text text), w)"
| "stage_on_text p text w = (Inl AttributeError, w)"

fun apply_processor ::
  "lib \<Rightarrow> string \<Rightarrow> log_method \<Rightarrow> processor \<Rightarrow> (error + payload) \<times> world
     \<Rightarrow> (error + payload) \<times> world" where
  "apply_processor lib lg m p (Inl err, w) = (Inl err, w)"
| "apply_processor lib lg m p (Inr (Dict ev), w) = stage_on_dict lib lg m p ev w"
| "apply_processor lib lg m p (Inr text, w) = stage_on_text p text w"

definition run_processors ::
  "lib \<Rightarrow> string \<Rightarrow> log_method \<Rightarrow> processor list \<Rightarrow> (error + payload) \<times> world
     \<Rightarrow> (error + payload) \<times> world" where
  "run_processors lib lg m ps s = foldl (\<lambda>s p. apply_processor lib lg m p s) s ps"

section \<open>A call on a logger\<close>

text \<open>
  A logger is named by the string it was created with; the one of the middleware is
  \<open>request\<close>. Its first use assembles it from the global configuration of that moment,
  and when that configuration asks for caching the logger keeps it from then on,
  whatever is configured later. A call whose level is below the minimum of the logger's
  configuration does nothing. Otherwise the event dictionary is built from the keyword
  arguments and the event name (the \<open>exception\<close> method also sets \<open>exc_info\<close>) and
  the stages are applied in list order. When a stage raises, the call raises that
  exception and nothing is printed. Text that comes out of the chain is printed; a
  dictionary that comes out unrendered is passed on as keyword arguments to the
  \<open>PrintLogger\<close>, whose method takes none, which raises \<open>TypeError\<close>.
\<close>

definition effective_config :: "string \<Rightarrow> world \<Rightarrow> lconfig" where
  "effective_config lg w = (case map_of (cached w) lg of None \<Rightarrow> config w | Some cfg \<Rightarrow> cfg)"

definition first_use :: "string \<Rightarrow> world \<Rightarrow> world" where
  "first_use lg w =
     (if map_of (cached w) lg = None \<and> cache_logger_on_first_use (config w)
      then w\<lparr>cached := (lg, config w) # cached w\<rparr> else w)"

fun print_out :: "payload \<Rightarrow> world \<Rightarrow> error option \<times> world" where
  "print_out (Dict ev) w = (Some TypeError, w)"
| "print_out text w = (None, w\<lparr>sink := sink w @ [text]\<rparr>)"

definition logger_call ::
  "lib \<Rightarrow> string \<Rightarrow> log_method \<Rightarrow> string \<Rightarrow> event_dict \<Rightarrow> world \<Rightarrow> error option \<times> world" where
  "logger_call lib lg m event kw w =
     (let cfg = effective_config lg w;
          w1 = first_use lg w;
          (raised, w3) =
            (if level_of m < min_level cfg then (None, w1)
             else
               let kw1 = (if m = Exception then setdefault ''exc_info'' (VBool True) kw else kw);
                   ev0 = dict_set ''event'' (VStr event) kw1;
                   (out, w2) = run_processors lib lg m (processors cfg) (Inr (Dict ev0), w1)
               in case out of Inl err \<Rightarrow> (Some err, w2) | Inr x \<Rightarrow> print_out x w2)
      in (raised, w3\<lparr>calls := calls w3 @
                       [\<lparr>call_logger = lg, call_method = m, call_event = event,
                         call_kwargs = kw, call_raised = raised\<rparr>]\<rparr>))"

section \<open>The wrapped application\<close>

text \<open>
  One run of the wrapped application is a tree of what it does to the modelled state:
  it returns, or raises, or does one thing and goes on. It sends a response message,
  rebinds the correlation id with \<open>set_correlation_id\<close>, changes the scope dictionary
  it was handed (the one the middleware reads again afterwards), or makes a call on a
  logger, after which it goes on according to whether that call returned or raised (an
  application that does not catch the exception goes on to raise it). The server's
  \<open>send\<close> appends the message to what was sent and is taken not to raise;
  \<open>send_wrapper\<close> is the closure of the middleware, with its \<open>nonlocal\<close> variable
  \<open>status_code\<close> as the first component of the state.
\<close>

datatype app_run =
    Return
  | Raise exc
  | Send message app_run
  | Log string log_method string event_dict "error option \<Rightarrow> app_run"
  | Rebind "string option" app_run
  | Mutate "scope \<Rightarrow> scope" app_run

type_synonym app = "scope \<Rightarrow> app_run"

definition send :: "message \<Rightarrow> world \<Rightarrow> world" where
  "send m w = w\<lparr>sent := sent w @ [m]\<rparr>"

definition send_wrapper :: "message \<Rightarrow> int \<times> world \<Rightarrow> int \<times> world" where
  "send_wrapper m s =
     (let status_code = (if msg_type m = ''http.response.start'' then status m else fst s)
      in (status_code, send m (snd s)))"

definition send_plain :: "message \<Rightarrow> unit \<times> world \<Rightarrow> unit \<times> world" where
  "send_plain m s = (fst s, send m (snd s))"

primrec run_app ::
  "lib \<Rightarrow> (message \<Rightarrow> 's \<times> world \<Rightarrow> 's \<times> world) \<Rightarrow> app_run \<Rightarrow> 's \<Rightarrow> scope \<Rightarrow> world
     \<Rightarrow> exc option \<times> 's \<times> scope \<times> world" where
  "run_app lib sendf Return st sc w = (None, st, sc, w)"
| "run_app lib sendf (Raise e) st sc w = (Some e, st, sc, w)"
| "run_app lib sendf (Send m k) st sc w =
     (let (st1, w1) = sendf m (st, w) in run_app lib sendf k st1 sc w1)"
| "run_app lib sendf (Log lg m event kw k) st sc w =
     (let (raised, w1) = logger_call lib lg m event kw w in run_app lib sendf (k raised) st sc w1)"
| "run_app lib sendf (Rebind c k) st sc w =
     run_app lib sendf k st sc (snd (set_correlation_id c w))"
| "run_app lib sendf (Mutate f k) st sc w = run_app lib sendf k st (f sc) w"

fun result_of :: "exc option \<Rightarrow> error + unit" where
  "result_of None = Inr ()"
| "result_of (Some e) = Inl (Propagated e)"

section \<open>The request logging middleware\<close>

text \<open>
  The body of \<open>__call__\<close> for an HTTP scope, block by block:
  \<open>extract_correlation_id\<close> is the lookup, decoding and binding of the header
  (lines 128 to 130), \<open>log_request\<close> the reading of the start time and the start event
  (lines 133 to 140, the query string being decoded while the arguments of the event
  are evaluated), \<open>call_app\<close> the \<open>try\<close> and its \<open>except Exception\<close> clause
  (lines 143 to 155), and \<open>log_completed\<close> the \<open>finally\<close> clause (lines 156 to 164).
  Each block returns the state it leaves behind also when it raises, since the binding
  of the correlation id and the readings of the clock made before the exception stay
  made. An exception raised by the start event leaves \<open>__call__\<close> at once, before the
  \<open>try\<close>. In the \<open>except\<close> clause an exception raised by \<open>logger.exception\<close>
  takes the place of the application's, which is then not raised again; what leaves the
  \<open>try\<close> is the first component of \<open>call_app\<close>. The \<open>finally\<close> clause reads the
  scope as the application left it, and an exception raised there takes the place of
  whatever was leaving. Any other scope type goes to the application with the server's
  own \<open>send\<close>.
\<close>

definition extract_correlation_id :: "scope \<Rightarrow> world \<Rightarrow> (error + string) \<times> world" where
  "extract_correlation_id scope w =
     (let hdrs = dict_of (case headers scope of None \<Rightarrow> [] | Some hs \<Rightarrow> hs)
      in case decode (dict_get hdrs ''x-correlation-id'' '''') of
           None \<Rightarrow> (Inl UnicodeDecodeError, w)
         | Some h \<Rightarrow>
             let (correlation_id, w1) = (if h \<noteq> '''' then (h, w) else fresh_uuid w);
                 (cid, w2) = set_correlation_id (Some correlation_id) w1
             in (Inr cid, w2))"

definition log_request :: "lib \<Rightarrow> scope \<Rightarrow> world \<Rightarrow> (error + datetime) \<times> world" where
  "log_request lib scope w =
     (let (start_time, w1) = utcnow w
      in case decode (case query_string scope of None \<Rightarrow> '''' | Some q \<Rightarrow> q) of
           None \<Rightarrow> (Inl UnicodeDecodeError, w1)
         | Some query \<Rightarrow>
             let (raised, w2) =
                   logger_call lib ''request'' Info ''request_started''
                     [(''method'', VStr (http_method scope)), (''path'', VStr (path scope)),
                      (''query'', VStr query)] w1
             in case raised of
                  None \<Rightarrow> (Inr start_time, w2)
                | Some err \<Rightarrow> (Inl err, w2))"

definition call_app ::
  "lib \<Rightarrow> app \<Rightarrow> scope \<Rightarrow> world \<Rightarrow> error option \<times> int \<times> scope \<times> world" where
  "call_app lib app scope w =
     (let (out, status_code, scope1, w1) = run_app lib send_wrapper (app scope) 500 scope w
      in case out of
           None \<Rightarrow> (None, status_code, scope1, w1)
         | Some e \<Rightarrow>
             if is_Exception e then
               let (raised, w2) =
                     logger_call lib ''request'' Exception ''request_error''
                       [(''error'', VStr (str_e e))] w1
               in case raised of
                    None \<Rightarrow> (Some (Propagated e), status_code, scope1, w2)
                  | Some err \<Rightarrow> (Some err, status_code, scope1, w2)
             else (Some (Propagated e), status_code, scope1, w1))"

definition log_completed ::
  "lib \<Rightarrow> scope \<Rightarrow> datetime \<Rightarrow> int \<Rightarrow> world \<Rightarrow> error option \<times> world" where
  "log_completed lib scope start_time status_code w =
     (let (now, w1) = utcnow w
      in logger_call lib ''request'' Info ''request_completed''
           [(''method'', VStr (http_method scope)), (''path'', VStr (path scope)),
            (''status_code'', VInt status_code),
            (''duration_seconds'', VMicros (elapsed_micros now start_time))] w1)"

definition LoggerMiddleware_call :: "lib \<Rightarrow> app \<Rightarrow> scope \<Rightarrow> world \<Rightarrow> (error + unit) \<times> world" where
  "LoggerMiddleware_call lib app scope w =
     (if scope_type scope \<noteq> ''http'' then
        (let (out, u, scope1, w1) = run_app lib send_plain (app scope) () scope w
         in (result_of out, w1))
      else
        case extract_correlation_id scope w of
          (Inl err, w1) \<Rightarrow> (Inl err, w1)
        | (Inr cid, w1) \<Rightarrow>
            (case log_request lib scope w1 of
               (Inl err, w2) \<Rightarrow> (Inl err, w2)
             | (Inr start_time, w2) \<Rightarrow>
                 let (leaving, status_code, scope1, w3) = call_app lib app scope w2;
                     (raised, w4) = log_completed lib scope1 start_time status_code w3
                 in (case raised of
                       Some err \<Rightarrow> Inl err
                     | None \<Rightarrow> (case leaving of None \<Rightarrow> Inr () | Some err \<Rightarrow> Inl err),
                     w4)))"

section \<open>What a run shows\<close>

text \<open>
  The two byte strings the middleware decodes before it logs anything, and whether both
  decode; the id the middleware binds for a request; the three calls the middleware
  itself makes on its logger, each with the exception it raised if any; the status the
  wrapper holds after a list of messages has gone through it, as the source computes
  it, and the status that the last \<open>http.response.start\<close> message among them carries,
  500 when there is none; the start time and the state with which the middleware calls
  the application, when it gets that far, and how the application's run then ends;
  what one call of the middleware leaves to be seen, which is its result, of every
  logger call the event, the \<open>status_code\<close> argument and the exception raised, of
  every printed event the fields \<open>event\<close>, \<open>correlation_id\<close>, \<open>status_code\<close>
  and \<open>error\<close>, the messages sent, and the context variable; and the state after
  \<open>i\<close> more random values and \<open>j\<close> more readings of the clock have been used.
\<close>

definition correlation_header :: "scope \<Rightarrow> bytes" where
  "correlation_header scope =
     dict_get (dict_of (case headers scope of None \<Rightarrow> [] | Some hs \<Rightarrow> hs)) ''x-correlation-id'' ''''"

definition query_bytes :: "scope \<Rightarrow> bytes" where
  "query_bytes scope = (case query_string scope of None \<Rightarrow> '''' | Some q \<Rightarrow> q)"

definition decodable :: "scope \<Rightarrow> bool" where
  "decodable scope =
     (utf8_wf (map of_char (correlation_header scope)) \<and> utf8_wf (map of_char (query_bytes scope)))"

definition request_id :: "scope \<Rightarrow> world \<Rightarrow> string" where
  "request_id scope w =
     (if correlation_header scope \<noteq> '''' then correlation_header scope
      else str_uuid (uuid4 (entropy w (drawn w))))"

definition started_call :: "scope \<Rightarrow> error option \<Rightarrow> log_call" where
  "started_call scope raised =
     \<lparr>call_logger = ''request'', call_method = Info, call_event = ''request_started'',
      call_kwargs = [(''method'', VStr (http_method scope)), (''path'', VStr (path scope)),
                     (''query'', VStr (query_bytes scope))],
      call_raised = raised\<rparr>"

definition error_call :: "exc \<Rightarrow> error option \<Rightarrow> log_call" where
  "error_call e raised =
     \<lparr>call_logger = ''request'', call_method = Exception, call_event = ''request_error'',
      call_kwargs = [(''error'', VStr (str_e e))], call_raised = raised\<rparr>"

definition completed_call :: "scope \<Rightarrow> int \<Rightarrow> int \<Rightarrow> error option \<Rightarrow> log_call" where
  "completed_call scope status_code micros raised =
     \<lparr>call_logger = ''request'', call_method = Info, call_event = ''request_completed'',
      call_kwargs = [(''method'', VStr (http_method scope)), (''path'', VStr (path scope)),
                     (''status_code'', VInt status_code),
                     (''duration_seconds'', VMicros micros)],
      call_raised = raised\<rparr>"

definition start_statuses :: "message list \<Rightarrow> int list" where
  "start_statuses ms = map status (filter (\<lambda>m. msg_type m = ''http.response.start'') ms)"

definition observed_status :: "message list \<Rightarrow> int" where
  "observed_status ms = (if start_statuses ms = [] then 500 else last (start_statuses ms))"

definition handler_entry :: "lib \<Rightarrow> scope \<Rightarrow> world \<Rightarrow> (datetime \<times> world) option" where
  "handler_entry lib scope w =
     (if scope_type scope \<noteq> ''http'' then None
      else case extract_correlation_id scope w of
             (Inl err, w1) \<Rightarrow> None
           | (Inr cid, w1) \<Rightarrow>
               (case log_request lib scope w1 of
                  (Inl err, w2) \<Rightarrow> None
                | (Inr start_time, w2) \<Rightarrow> Some (start_time, w2)))"

definition handler_run ::
  "lib \<Rightarrow> app \<Rightarrow> scope \<Rightarrow> world \<Rightarrow> (exc option \<times> int \<times> scope \<times> world) option" where
  "handler_run lib app scope w =
     (case handler_entry lib scope w of
        None \<Rightarrow> None
      | Some (start_time, w2) \<Rightarrow> Some (run_app lib send_wrapper (app scope) 500 scope w2))"

definition call_summary :: "log_call \<Rightarrow> string \<times> pyval option \<times> error option" where
  "call_summary c = (call_event c, map_of (call_kwargs c) ''status_code'', call_raised c)"

definition printed_summary ::
  "payload \<Rightarrow> pyval option \<times> pyval option \<times> pyval option \<times> pyval option" where
  "printed_summary x =
     (map_of (fields_of x) ''event'', map_of (fields_of x) ''correlation_id'',
      map_of (fields_of x) ''status_code'', map_of (fields_of x) ''error'')"

definition outcome ::
  "(error + unit) \<times> world \<Rightarrow>
     (error + unit) \<times> (string \<times> pyval option \<times> error option) list
     \<times> (pyval option \<times> pyval option \<times> pyval option \<times> pyval option) list
     \<times> message list \<times> string option" where
  "outcome r =
     (fst r, map call_summary (calls (snd r)), map printed_summary (sink (snd r)),
      sent (snd r), correlation_id_var (snd r))"

definition advance :: "nat \<Rightarrow> nat \<Rightarrow> world \<Rightarrow> world" where
  "advance i j w = w\<lparr>drawn := drawn w + i, ticks := ticks w + j\<rparr>"

section \<open>The timestamp format of the specification\<close>

text \<open>
  The shapes the specification names, as predicates on strings: the date and time to
  the second, \<open>DDDD-DD-DDTDD:DD:DD\<close>; that followed by \<open>Z\<close>; and that followed by a
  fraction of at least three digits and \<open>Z\<close>.
\<close>

definition is_digit :: "char \<Rightarrow> bool" where
  "is_digit c = (c \<in> set ''0123456789'')"

definition iso8601_date_time :: "string \<Rightarrow> bool" where
  "iso8601_date_time s =
     (length s = 19
      \<and> list_all is_digit (take 4 s) \<and> s ! 4 = CHR ''-''
      \<and> list_all is_digit (take 2 (drop 5 s)) \<and> s ! 7 = CHR ''-''
      \<and> list_all is_digit (take 2 (drop 8 s)) \<and> s ! 10 = CHR ''T''
      \<and> list_all is_digit (take 2 (drop 11 s)) \<and> s ! 13 = CHR '':''
      \<and> list_all is_digit (take 2 (drop 14 s)) \<and> s ! 16 = CHR '':''
      \<and> list_all is_digit (take 2 (drop 17 s)))"

definition iso8601_seconds_z :: "string \<Rightarrow> bool" where
  "iso8601_seconds_z s = (iso8601_date_time (take 19 s) \<and> drop 19 s = ''Z'')"

definition iso8601_ms_z :: "string \<Rightarrow> bool" where
  "iso8601_ms_z s =
     (24 \<le> length s \<and> iso8601_date_time (take 19 s) \<and> s ! 19 = CHR ''.''
      \<and> list_all is_digit (butlast (drop 20 s)) \<and> last s = CHR ''Z'')"

section \<open>Example data\<close>

text \<open>
  \<open>world0\<close> is a process in which nothing has been logged or sent and whose
  configuration is the one \<open>configure_logging\<close> installs by default.
  \<open>configured_world\<close>, \<open>warning_world\<close> and \<open>quiet_world\<close> are what
  \<open>configure_logging\<close> leaves when called with its defaults, with the level
  \<open>WARNING\<close> and with the level \<open>CRITICAL\<close>. \<open>plain_world\<close> has
  a configuration made with \<open>structlog.configure\<close> directly: the chain of this
  repository without the logger-name stage and the three stages after it, no minimum
  level, no caching.
\<close>

definition new_year :: datetime where
  "new_year = \<lparr>year = 2024, month = 1, day = 1, hour = 0, minute = 0, second = 0,
                microsecond = 0\<rparr>"

definition second_clock :: "nat \<Rightarrow> datetime" where
  "second_clock n = new_year\<lparr>second := n\<rparr>"

definition micro_clock :: "nat \<Rightarrow> datetime" where
  "micro_clock n = new_year\<lparr>microsecond := 1500 + n\<rparr>"

definition world0 :: world where
  "world0 = \<lparr>correlation_id_var = None, entropy = of_nat, drawn = 0,
             clock = second_clock, ticks = 0,
             config = \<lparr>processors = build_processors True, min_level = 20,
                       cache_logger_on_first_use = True\<rparr>,
             cached = [], contextvars = [], calls = [], sink = [], sent = []\<rparr>"

definition micro_world :: world where
  "micro_world = world0\<lparr>clock := micro_clock\<rparr>"

definition bound_world :: world where
  "bound_world = world0\<lparr>correlation_id_var := Some ''ctx-1''\<rparr>"

definition configured_world :: world where
  "configured_world =
     world0\<lparr>contextvars := [(''service'', VStr ''app''), (''environment'', VStr ''development'')]\<rparr>"

definition quiet_world :: world where
  "quiet_world =
     world0\<lparr>config := \<lparr>processors = build_processors True, min_level = 50,
                         cache_logger_on_first_use = True\<rparr>,
            contextvars := [(''service'', VStr ''app''), (''environment'', VStr ''development'')]\<rparr>"

definition warning_world :: world where
  "warning_world =
     world0\<lparr>config := \<lparr>processors = build_processors True, min_level = 30,
                         cache_logger_on_first_use = True\<rparr>,
            contextvars := [(''service'', VStr ''app''), (''environment'', VStr ''development'')]\<rparr>"

definition plain_config :: lconfig where
  "plain_config =
     \<lparr>processors = [Merge_contextvars, Add_correlation_id, Add_timestamp, Add_log_level,
                    JSONRenderer],
      min_level = 0, cache_logger_on_first_use = False\<rparr>"

definition plain_world :: world where
  "plain_world = world0\<lparr>config := plain_config\<rparr>"

definition lib_id :: lib where
  "lib_id p m ev = Inr ev"

definition get_items :: scope where
  "get_items = \<lparr>scope_type = ''http'', http_method = ''GET'', path = ''/items'',
                 query_string = Some ''page=2'',
                 headers = Some [(''host'', ''example.org''), (''x-correlation-id'', ''abc-123'')]\<rparr>"

definition get_items_bad_id :: scope where
  "get_items_bad_id = get_items\<lparr>headers := Some [(''x-correlation-id'', [CHR 0xFF])]\<rparr>"

definition response_start :: "int \<Rightarrow> message" where
  "response_start code = \<lparr>msg_type = ''http.response.start'', status = code, payload = ''''\<rparr>"

definition response_body :: message where
  "response_body = \<lparr>msg_type = ''http.response.body'', status = 0, payload = ''[]''\<rparr>"

definition app_ok :: app where
  "app_ok scope = Send (response_start 200) (Send response_body Return)"

definition app_two_starts :: app where
  "app_two_starts scope = Send (response_start 200) (Send (response_start 404) Return)"

definition app_raises :: app where
  "app_raises scope = Raise (Exc True ''boom'')"

definition app_cancelled :: app where
  "app_cancelled scope = Raise (Exc False ''cancelled'')"

definition caller_event :: event_dict where
  "caller_event = [(''event'', VStr ''hello''), (''correlation_id'', VStr ''caller''),
                   (''timestamp'', VStr ''X'')]"

section \<open>Facts about the correlation context store\<close>

lemma str_uuid_nonempty: "str_uuid x \<noteq> ''''"
  by (simp add: str_uuid_def Let_def)

lemma fresh_uuid_nonempty: "fst (fresh_uuid w) \<noteq> ''''"
  by (simp add: fresh_uuid_def str_uuid_nonempty)

lemma fresh_uuid_var: "correlation_id_var (snd (fresh_uuid w)) = correlation_id_var w"
  by (simp add: fresh_uuid_def)

lemma get_correlation_id_nonempty: "fst (get_correlation_id w) \<noteq> ''''"
  by (simp add: get_correlation_id_def fresh_uuid_nonempty)

lemma get_correlation_id_var:
  "correlation_id_var (snd (get_correlation_id w)) = correlation_id_var w"
  by (simp add: get_correlation_id_def fresh_uuid_var)

lemma get_correlation_id_bound:
  "correlation_id_var w = Some v \<Longrightarrow> v \<noteq> '''' \<Longrightarrow> get_correlation_id w = (v, w)"
  by (simp add: get_correlation_id_def var_get_def)

lemma get_correlation_id_unset:
  "correlation_id_var w = None \<Longrightarrow> get_correlation_id w = fresh_uuid w"
  by (simp add: get_correlation_id_def var_get_def)

lemma world0_simps:
  "correlation_id_var world0 = None" "entropy world0 n = of_nat n" "drawn world0 = 0"
  "clock world0 n = second_clock n" "ticks world0 = 0"
  "config world0 = \<lparr>processors = build_processors True, min_level = 20,
     cache_logger_on_first_use = True\<rparr>" "cached world0 = []"
  "calls world0 = []" "sink world0 = []" "sent world0 = []" "contextvars world0 = []"
  by (simp_all add: world0_def)

lemma uuid_0: "str_uuid (uuid4 0) = ''00000000-0000-4000-8000-000000000000''"
  by code_simp

lemma uuid_1: "str_uuid (uuid4 1) = ''00000000-0000-4000-8000-000000000001''"
  by code_simp

lemma get_correlation_id_examples:
  "fst (get_correlation_id world0) = ''00000000-0000-4000-8000-000000000000''"
  "get_correlation_id bound_world = (''ctx-1'', bound_world)"
  by (simp_all add: get_correlation_id_def var_get_def fresh_uuid_def world0_simps uuid_0
        bound_world_def)

text \<open>
  C3. \<open>get_correlation_id\<close> is a total function (it has no failure result) and never
  returns the empty string; it leaves the context variable as it found it; where a
  non-empty id is bound it returns that id and changes nothing; where none is bound it
  returns the string form of a uuid made from the next random value, and only the count
  of random values used moves on, so that a second read in the still-unset context is
  made from the following random value.
\<close>

theorem get_correlation_id_contract:
  "fst (get_correlation_id w) \<noteq> ''''
   \<and> correlation_id_var (snd (get_correlation_id w)) = correlation_id_var w
   \<and> (correlation_id_var w = Some v \<and> v \<noteq> '''' \<longrightarrow> get_correlation_id w = (v, w))
   \<and> (correlation_id_var w = None \<longrightarrow>
        get_correlation_id w
          = (str_uuid (uuid4 (entropy w (drawn w))), w\<lparr>drawn := Suc (drawn w)\<rparr>))"
  using get_correlation_id_nonempty [of w] get_correlation_id_var [of w]
    get_correlation_id_bound [of w v] get_correlation_id_unset [of w]
  by (simp add: fresh_uuid_def)

theorem get_correlation_id_contract_witness:
  "correlation_id_var world0 = None
   \<and> fst (get_correlation_id world0) = ''00000000-0000-4000-8000-000000000000''
   \<and> correlation_id_var (snd (get_correlation_id world0)) = None
   \<and> fst (get_correlation_id (snd (get_correlation_id world0)))
        = ''00000000-0000-4000-8000-000000000001''
   \<and> correlation_id_var bound_world = Some ''ctx-1''
   \<and> get_correlation_id bound_world = (''ctx-1'', bound_world)"
  using get_correlation_id_contract [of world0 "''x''"]
    get_correlation_id_contract [of "world0\<lparr>drawn := Suc 0\<rparr>" "''x''"]
    get_correlation_id_contract [of bound_world "''ctx-1''"]
  by (simp add: world0_def bound_world_def uuid_0 uuid_1)


lemma set_correlation_id_given:
  "v \<noteq> '''' \<Longrightarrow> set_correlation_id (Some v) w = (v, w\<lparr>correlation_id_var := Some v\<rparr>)"
  by (simp add: set_correlation_id_def)

lemma set_correlation_id_fresh:
  "a = None \<or> a = Some '''' \<Longrightarrow>
   set_correlation_id a w
     = (str_uuid (uuid4 (entropy w (drawn w))),
        w\<lparr>drawn := Suc (drawn w),
          correlation_id_var := Some (str_uuid (uuid4 (entropy w (drawn w))))\<rparr>)"
  by (auto simp: set_correlation_id_def fresh_uuid_def)

lemma set_correlation_id_nonempty: "fst (set_correlation_id a w) \<noteq> ''''"
  by (cases a) (simp_all add: set_correlation_id_def fresh_uuid_def str_uuid_nonempty)

lemma set_correlation_id_binds:
  "correlation_id_var (snd (set_correlation_id a w)) = Some (fst (set_correlation_id a w))"
  by (cases a) (simp_all add: set_correlation_id_def fresh_uuid_def)

lemma reads_bound:
  "correlation_id_var w = Some v \<Longrightarrow> v \<noteq> '''' \<Longrightarrow> reads n w = (replicate n v, w)"
  by (induction n) (simp_all add: get_correlation_id_bound)

text \<open>
  C4. \<open>set_correlation_id\<close> is a total function (it has no failure result). Given a
  non-empty value it binds that value and returns it; given no value or the empty string
  it binds and returns the string form of a uuid made from the next random value. What
  it returns is never empty and is what it has bound, and any number of reads that
  follow it, with no other set in between, all return that value and leave the state as
  the set left it.
\<close>

theorem set_correlation_id_contract:
  "(v \<noteq> '''' \<longrightarrow> set_correlation_id (Some v) w = (v, w\<lparr>correlation_id_var := Some v\<rparr>))
   \<and> (a = None \<or> a = Some '''' \<longrightarrow>
        set_correlation_id a w
          = (str_uuid (uuid4 (entropy w (drawn w))),
             w\<lparr>drawn := Suc (drawn w),
               correlation_id_var := Some (str_uuid (uuid4 (entropy w (drawn w))))\<rparr>))
   \<and> fst (set_correlation_id b w) \<noteq> ''''
   \<and> correlation_id_var (snd (set_correlation_id b w)) = Some (fst (set_correlation_id b w))
   \<and> reads n (snd (set_correlation_id b w))
        = (replicate n (fst (set_correlation_id b w)), snd (set_correlation_id b w))"
  using set_correlation_id_given [of v w] set_correlation_id_fresh [of a w]
    set_correlation_id_nonempty [of b w] set_correlation_id_binds [of b w]
    reads_bound [OF set_correlation_id_binds [of b w] set_correlation_id_nonempty [of b w], of n]
  by simp

theorem set_correlation_id_contract_witness:
  "set_correlation_id (Some ''abc-123'') world0
     = (''abc-123'', world0\<lparr>correlation_id_var := Some ''abc-123''\<rparr>)
   \<and> fst (set_correlation_id None world0) = ''00000000-0000-4000-8000-000000000000''
   \<and> fst (set_correlation_id (Some []) world0) = ''00000000-0000-4000-8000-000000000000''
   \<and> fst (reads 3 (snd (set_correlation_id (Some ''abc-123'') world0)))
        = [''abc-123'', ''abc-123'', ''abc-123'']"
  using set_correlation_id_contract
          [where v = "''abc-123''" and w = world0 and a = None and b = "Some ''abc-123''" and n = 3]
    set_correlation_id_contract
          [where v = "''abc-123''" and w = world0 and a = "Some []" and b = None and n = 0]
  by (simp add: world0_simps uuid_0 numeral_3_eq_3)

section \<open>Facts about the two processors\<close>

lemma map_of_dict_set:
  "map_of (dict_set k v d) k' = (if k' = k then Some v else map_of d k')"
  by (simp add: dict_set_def update_conv')

lemma add_correlation_id_eq:
  "add_correlation_id lg m ev w
     = (dict_set ''correlation_id'' (VStr (fst (get_correlation_id w))) ev,
        snd (get_correlation_id w))"
  using get_correlation_id_nonempty [of w]
  by (simp add: add_correlation_id_def split_beta)

lemma add_timestamp_eq:
  "add_timestamp lg m ev w
     = (dict_set ''timestamp'' (VStr (isoformat (clock w (ticks w)) @ ''Z'')) ev,
        w\<lparr>ticks := Suc (ticks w)\<rparr>)"
  by (simp add: add_timestamp_def utcnow_def)

text \<open>
  C10. The id that \<open>add_correlation_id\<close> fetches is never empty, so its guard always
  holds: for every event dictionary the processor is the unguarded assignment, and its
  output has the key \<open>correlation_id\<close>, holding the fetched id.
\<close>

theorem add_correlation_id_guard_always_true:
  "fst (get_correlation_id w) \<noteq> ''''
   \<and> add_correlation_id lg m ev w
       = (dict_set ''correlation_id'' (VStr (fst (get_correlation_id w))) ev,
          snd (get_correlation_id w))
   \<and> map_of (fst (add_correlation_id lg m ev w)) ''correlation_id''
       = Some (VStr (fst (get_correlation_id w)))
   \<and> ''correlation_id'' \<in> fst ` set (fst (add_correlation_id lg m ev w))"
proof -
  have eq: "map_of (fst (add_correlation_id lg m ev w)) ''correlation_id''
              = Some (VStr (fst (get_correlation_id w)))"
    by (simp add: add_correlation_id_eq map_of_dict_set)
  then have "''correlation_id'' \<in> fst ` set (fst (add_correlation_id lg m ev w))"
    by (metis domI dom_map_of_conv_image_fst)
  with eq show ?thesis
    by (simp add: add_correlation_id_eq get_correlation_id_nonempty)
qed

theorem add_correlation_id_guard_always_true_witness:
  "fst (add_correlation_id ''app'' Info [(''event'', VStr ''hello'')] world0)
     = [(''event'', VStr ''hello''),
        (''correlation_id'', VStr ''00000000-0000-4000-8000-000000000000'')]
   \<and> fst (add_correlation_id ''app'' Info [] bound_world) = [(''correlation_id'', VStr ''ctx-1'')]"
  using add_correlation_id_guard_always_true [of world0 "''app''" Info "[(''event'', VStr ''hello'')]"]
    add_correlation_id_guard_always_true [of bound_world "''app''" Info "[]"]
    get_correlation_id_examples
  by (simp add: dict_set_def)


section \<open>Facts about decimal formatting and the timestamp\<close>

lemma hexdigit_digit: "n < 10 \<Longrightarrow> is_digit (hexdigit n)"
proof -
  assume "n < 10"
  then have "n \<in> {0, 1, 2, 3, 4, 5, 6, 7, 8, 9}" by auto
  then show ?thesis
    by (auto simp: hexdigit_def is_digit_def)
qed

lemma dec_digits: "list_all is_digit (dec n)"
proof (induction n rule: dec.induct)
  case (1 n)
  show ?case
  proof (cases "n < 10")
    case True
    then show ?thesis by (subst dec.simps) (simp add: hexdigit_digit)
  next
    case False
    with 1 show ?thesis by (subst dec.simps) (simp add: hexdigit_digit)
  qed
qed

lemma length_dec_pos: "0 < length (dec n)"
  by (subst dec.simps) simp

lemma length_dec_le: "0 < k \<Longrightarrow> n < 10 ^ k \<Longrightarrow> length (dec n) \<le> k"
proof (induction n arbitrary: k rule: dec.induct)
  case (1 n)
  show ?case
  proof (cases "n < 10")
    case True
    with 1 show ?thesis by (subst dec.simps) simp
  next
    case False
    obtain j where k: "k = Suc j" using 1(2) by (cases k) auto
    have "j \<noteq> 0" using False 1(3) k by (cases j) auto
    moreover have "n div 10 < 10 ^ j" using 1(3) k by (simp add: less_mult_imp_div_less mult.commute)
    ultimately have "length (dec (n div 10)) \<le> j" using 1(1) [OF False, of j] by simp
    then show ?thesis using False k by (subst dec.simps) simp
  qed
qed

lemma length_pad0: "0 < k \<Longrightarrow> n < 10 ^ k \<Longrightarrow> length (pad0 k n) = k"
  using length_dec_le [of k n] by (simp add: pad0_def)

lemma replicate_zero_digits: "list_all is_digit (replicate m CHR ''0'')"
  by (induction m) (simp_all add: is_digit_def)

lemma pad0_digits: "list_all is_digit (pad0 k n)"
  by (simp add: pad0_def dec_digits replicate_zero_digits)


lemma length2E: "length b = 2 \<Longrightarrow> \<exists>x y. b = [x, y]"
  by (cases b; cases "tl b"; cases "tl (tl b)") auto

lemma length4E: "length a = 4 \<Longrightarrow> \<exists>x y z u. a = [x, y, z, u]"
  by (simp add: numeral_eq_Suc length_Suc_conv) blast

lemma date_time_shape:
  assumes "length a = 4" "length b = 2" "length c = 2" "length d = 2" "length e = 2" "length f = 2"
    and "list_all is_digit a" "list_all is_digit b" "list_all is_digit c"
    and "list_all is_digit d" "list_all is_digit e" "list_all is_digit f"
  shows "iso8601_date_time (a @ ''-'' @ b @ ''-'' @ c @ ''T'' @ d @ '':'' @ e @ '':'' @ f)"
proof -
  obtain a1 a2 a3 a4 where a: "a = [a1, a2, a3, a4]" using length4E [OF assms(1)] by blast
  obtain b1 b2 where b: "b = [b1, b2]" using length2E [OF assms(2)] by blast
  obtain c1 c2 where c: "c = [c1, c2]" using length2E [OF assms(3)] by blast
  obtain d1 d2 where d: "d = [d1, d2]" using length2E [OF assms(4)] by blast
  obtain e1 e2 where e: "e = [e1, e2]" using length2E [OF assms(5)] by blast
  obtain f1 f2 where f: "f = [f1, f2]" using length2E [OF assms(6)] by blast
  show ?thesis
    using assms(7-12) unfolding a b c d e f iso8601_date_time_def by simp
qed


lemma days_in_month_le: "1 \<le> m \<Longrightarrow> m \<le> 12 \<Longrightarrow> days_in_month y m \<le> 31"
proof -
  assume "1 \<le> m" "m \<le> 12"
  then have "m = 1 \<or> m = 2 \<or> m = 3 \<or> m = 4 \<or> m = 5 \<or> m = 6 \<or> m = 7 \<or> m = 8 \<or> m = 9
             \<or> m = 10 \<or> m = 11 \<or> m = 12"
    by arith
  then show ?thesis
    by (elim disjE) (simp_all add: days_in_month_def)
qed

lemma date_time_part:
  assumes "valid_datetime d"
  shows "iso8601_date_time
           (pad0 4 (year d) @ ''-'' @ pad0 2 (month d) @ ''-'' @ pad0 2 (day d) @ ''T''
              @ pad0 2 (hour d) @ '':'' @ pad0 2 (minute d) @ '':'' @ pad0 2 (second d))"
proof -
  have "day d \<le> 31"
    using assms days_in_month_le [of "month d" "year d"] by (simp add: valid_datetime_def)
  then have day: "day d < 10 ^ 2" by simp
  have l: "length (pad0 4 (year d)) = 4" "length (pad0 2 (month d)) = 2"
    "length (pad0 2 (day d)) = 2" "length (pad0 2 (hour d)) = 2"
    "length (pad0 2 (minute d)) = 2" "length (pad0 2 (second d)) = 2"
    using assms day length_pad0 [of 4 "year d"] length_pad0 [of 2 "month d"]
      length_pad0 [of 2 "day d"] length_pad0 [of 2 "hour d"] length_pad0 [of 2 "minute d"]
      length_pad0 [of 2 "second d"]
    by (simp_all add: valid_datetime_def)
  show ?thesis
    by (rule date_time_shape) (simp_all add: l pad0_digits)
qed

lemma isoformat_seconds:
  assumes "valid_datetime d" "microsecond d = 0"
  shows "iso8601_seconds_z (isoformat d @ ''Z'')"
proof -
  define dt where "dt = pad0 4 (year d) @ ''-'' @ pad0 2 (month d) @ ''-'' @ pad0 2 (day d) @ ''T''
              @ pad0 2 (hour d) @ '':'' @ pad0 2 (minute d) @ '':'' @ pad0 2 (second d)"
  have dt: "iso8601_date_time dt" unfolding dt_def by (rule date_time_part [OF assms(1)])
  then have len: "length dt = 19" by (simp only: iso8601_date_time_def)
  have iso: "isoformat d @ ''Z'' = dt @ ''Z''" using assms(2) by (simp add: isoformat_def dt_def)
  show ?thesis
    unfolding iso iso8601_seconds_z_def using dt len by simp
qed

lemma isoformat_fraction:
  assumes "valid_datetime d" "microsecond d \<noteq> 0"
  shows "iso8601_ms_z (isoformat d @ ''Z'') \<and> length (isoformat d @ ''Z'') = 27"
proof -
  define dt where "dt = pad0 4 (year d) @ ''-'' @ pad0 2 (month d) @ ''-'' @ pad0 2 (day d) @ ''T''
              @ pad0 2 (hour d) @ '':'' @ pad0 2 (minute d) @ '':'' @ pad0 2 (second d)"
  define us where "us = pad0 6 (microsecond d)"
  have dt: "iso8601_date_time dt" unfolding dt_def by (rule date_time_part [OF assms(1)])
  then have len: "length dt = 19" by (simp only: iso8601_date_time_def)
  have "microsecond d < 10 ^ 6" using assms(1) by (simp add: valid_datetime_def)
  then have us: "length us = 6" unfolding us_def by (intro length_pad0) simp_all
  have dig: "list_all is_digit us" unfolding us_def by (rule pad0_digits)
  have iso: "isoformat d @ ''Z'' = dt @ ''.'' @ us @ ''Z''"
    using assms(2) by (simp add: isoformat_def dt_def us_def)
  have 1: "length (dt @ ''.'' @ us @ ''Z'') = 27" using len us by simp
  have 2: "take 19 (dt @ ''.'' @ us @ ''Z'') = dt" using len by simp
  have 3: "(dt @ ''.'' @ us @ ''Z'') ! 19 = CHR ''.''" using len by (simp add: nth_append)
  have 4: "drop 20 (dt @ ''.'' @ us @ ''Z'') = us @ ''Z''" using len by simp
  have 5: "butlast (us @ ''Z'') = us" by (simp add: butlast_append)
  have 6: "last (dt @ ''.'' @ us @ ''Z'') = CHR ''Z''" by simp
  show ?thesis
    unfolding iso iso8601_ms_z_def 1 2 3 4 5 6 using dt dig by simp
qed

lemma replicate_num: "replicate (numeral k) c = c # replicate (pred_numeral k) c"
  by (simp add: numeral_eq_Suc)

lemma iso_sec: "isoformat (second_clock 0) = ''2024-01-01T00:00:00''"
  by (simp add: isoformat_def pad0_def dec.simps hexdigit_def replicate_num second_clock_def new_year_def)

lemma iso_mic: "isoformat (micro_clock 0) = ''2024-01-01T00:00:00.001500''"
  by (simp add: isoformat_def pad0_def dec.simps hexdigit_def replicate_num micro_clock_def new_year_def)

lemma valid_micro: "valid_datetime (micro_clock 0)"
  by (simp add: valid_datetime_def micro_clock_def new_year_def days_in_month_def)

lemma valid_second: "valid_datetime (second_clock 0)"
  by (simp add: valid_datetime_def second_clock_def new_year_def days_in_month_def)

lemma second_zero: "microsecond (second_clock 0) = 0"
  by (simp add: second_clock_def new_year_def)

lemma micro_nz: "microsecond (micro_clock 0) \<noteq> 0" by (simp add: micro_clock_def new_year_def)


text \<open>
  C9, as stated, fails at a time whose microsecond field is zero: \<open>isoformat\<close> then
  prints no fraction at all, and the injected timestamp is \<open>2024-01-01T00:00:00Z\<close>,
  which has seconds precision.
\<close>

theorem timestamp_whole_second_has_no_fraction:
  "valid_datetime (clock world0 (ticks world0))
   \<and> microsecond (clock world0 (ticks world0)) = 0
   \<and> map_of (fst (add_timestamp ''app'' Info [] world0)) ''timestamp''
       = Some (VStr ''2024-01-01T00:00:00Z'')
   \<and> \<not> iso8601_ms_z ''2024-01-01T00:00:00Z''"
  by (simp add: add_timestamp_eq map_of_dict_set world0_simps valid_second iso_sec
        iso8601_ms_z_def second_zero)

text \<open>
  C9, amended. For every valid time of emission the injected timestamp is the ISO-8601
  form of that UTC time followed by \<open>Z\<close>: with a fraction of six digits (microsecond
  precision) when the microsecond field is not zero, and to the second, with no
  fraction, when it is zero.
\<close>

theorem add_timestamp_format:
  assumes "valid_datetime (clock w (ticks w))"
  shows "map_of (fst (add_timestamp lg m ev w)) ''timestamp''
           = Some (VStr (isoformat (clock w (ticks w)) @ ''Z''))
         \<and> last (isoformat (clock w (ticks w)) @ ''Z'') = CHR ''Z''
         \<and> (microsecond (clock w (ticks w)) \<noteq> 0 \<longrightarrow>
              iso8601_ms_z (isoformat (clock w (ticks w)) @ ''Z'')
              \<and> length (isoformat (clock w (ticks w)) @ ''Z'') = 27)
         \<and> (microsecond (clock w (ticks w)) = 0 \<longrightarrow>
              iso8601_seconds_z (isoformat (clock w (ticks w)) @ ''Z''))"
  using isoformat_fraction [OF assms] isoformat_seconds [OF assms]
  by (simp add: add_timestamp_eq map_of_dict_set)

theorem add_timestamp_format_witness:
  "valid_datetime (clock micro_world (ticks micro_world))
   \<and> map_of (fst (add_timestamp ''app'' Info [] micro_world)) ''timestamp''
       = Some (VStr ''2024-01-01T00:00:00.001500Z'')
   \<and> iso8601_ms_z ''2024-01-01T00:00:00.001500Z''
   \<and> valid_datetime (clock world0 (ticks world0))
   \<and> iso8601_seconds_z ''2024-01-01T00:00:00Z''"
proof -
  have m: "clock micro_world (ticks micro_world) = micro_clock 0"
    by (simp add: micro_world_def world0_def)
  have s: "clock world0 (ticks world0) = second_clock 0"
    by (simp add: world0_def)
  have vm: "valid_datetime (clock micro_world (ticks micro_world))"
    unfolding m by (rule valid_micro)
  have vs: "valid_datetime (clock world0 (ticks world0))"
    unfolding s by (rule valid_second)
  show ?thesis
    using add_timestamp_format [OF vm, of "''app''" Info "[]"]
      add_timestamp_format [OF vs, of "''app''" Info "[]"] vm vs micro_nz
    by (simp add: m s iso_mic iso_sec second_zero)
qed

text \<open>
  C5, as stated, fails: an event in which the caller supplied \<open>correlation_id\<close> and
  \<open>timestamp\<close> comes out of the two processors with the context's id and the clock's
  time under those keys, the caller's values gone.
\<close>

theorem caller_fields_overwritten:
  "map_of caller_event ''correlation_id'' = Some (VStr ''caller'')
   \<and> map_of (fst (add_correlation_id ''app'' Info caller_event bound_world)) ''correlation_id''
       = Some (VStr ''ctx-1'')
   \<and> map_of caller_event ''timestamp'' = Some (VStr ''X'')
   \<and> map_of (fst (add_timestamp ''app'' Info caller_event bound_world)) ''timestamp''
       = Some (VStr ''2024-01-01T00:00:00Z'')"
proof -
  have "get_correlation_id bound_world = (''ctx-1'', bound_world)"
    by (rule get_correlation_id_bound) (simp_all add: bound_world_def)
  moreover have "clock bound_world (ticks bound_world) = second_clock 0"
    by (simp add: bound_world_def world0_def)
  ultimately show ?thesis
    by (simp add: add_correlation_id_eq add_timestamp_eq map_of_dict_set caller_event_def iso_sec)
qed

text \<open>
  C5, amended. Each of the two processors assigns its own key whatever the caller
  supplied: \<open>add_correlation_id\<close> sets \<open>correlation_id\<close> to the id that
  \<open>get_correlation_id\<close> returns and \<open>add_timestamp\<close> sets \<open>timestamp\<close> to the
  time of the clock, replacing a value the caller gave under that key; every other key
  of the event keeps the value the caller gave.
\<close>

theorem enrichment_overwrites_own_key_only:
  "map_of (fst (add_correlation_id lg m ev w)) ''correlation_id''
     = Some (VStr (fst (get_correlation_id w)))
   \<and> (k \<noteq> ''correlation_id'' \<longrightarrow>
        map_of (fst (add_correlation_id lg m ev w)) k = map_of ev k)
   \<and> map_of (fst (add_timestamp lg m ev w)) ''timestamp''
       = Some (VStr (isoformat (clock w (ticks w)) @ ''Z''))
   \<and> (j \<noteq> ''timestamp'' \<longrightarrow> map_of (fst (add_timestamp lg m ev w)) j = map_of ev j)"
  by (simp add: add_correlation_id_eq add_timestamp_eq map_of_dict_set)

theorem enrichment_overwrites_own_key_only_witness:
  "map_of (fst (add_correlation_id ''app'' Info caller_event bound_world)) ''timestamp''
     = Some (VStr ''X'')
   \<and> map_of (fst (add_timestamp ''app'' Info caller_event bound_world)) ''correlation_id''
       = Some (VStr ''caller'')
   \<and> map_of (fst (add_timestamp ''app'' Info caller_event bound_world)) ''event''
       = Some (VStr ''hello'')"
  using enrichment_overwrites_own_key_only
      [where lg = "''app''" and m = Info and ev = caller_event and w = bound_world
         and k = "''timestamp''" and j = "''correlation_id''"]
    enrichment_overwrites_own_key_only
      [where lg = "''app''" and m = Info and ev = caller_event and w = bound_world
         and k = "''event''" and j = "''event''"]
  by (simp add: caller_event_def)



section \<open>Facts about the logger and the run of the application\<close>

lemma advance_simps [simp]:
  "correlation_id_var (advance i j w) = correlation_id_var w"
  "entropy (advance i j w) = entropy w" "clock (advance i j w) = clock w"
  "config (advance i j w) = config w" "cached (advance i j w) = cached w"
  "contextvars (advance i j w) = contextvars w"
  "calls (advance i j w) = calls w" "sink (advance i j w) = sink w" "sent (advance i j w) = sent w"
  "drawn (advance i j w) = drawn w + i" "ticks (advance i j w) = ticks w + j"
  by (simp_all add: advance_def)

lemma advance_0 [simp]: "advance 0 0 w = w"
  by (simp add: advance_def)

lemma advance_advance [simp]: "advance i j (advance k l w) = advance (k + i) (l + j) w"
  by (simp add: advance_def add.assoc)

lemma fresh_uuid_advance: "snd (fresh_uuid w) = advance 1 0 w"
  by (simp add: fresh_uuid_def advance_def)

lemma utcnow_advance: "snd (utcnow w) = advance 0 1 w"
  by (simp add: utcnow_def advance_def)

lemma get_correlation_id_advance: "\<exists>i. snd (get_correlation_id w) = advance i 0 w"
proof (cases "var_get w = ''''")
  case True
  then have "snd (get_correlation_id w) = advance 1 0 w"
    by (simp add: get_correlation_id_def fresh_uuid_advance)
  then show ?thesis by blast
next
  case False
  then have "snd (get_correlation_id w) = advance 0 0 w"
    by (simp add: get_correlation_id_def)
  then show ?thesis by blast
qed

lemma advance_self: "\<exists>i j. w = advance i j w"
  using advance_0 [of w] by metis

lemma stage_on_dict_advance:
  "\<exists>i j. snd (stage_on_dict lib lg m p ev w) = advance i j w"
proof -
  obtain i where i: "snd (get_correlation_id w) = advance i 0 w"
    using get_correlation_id_advance by blast
  have a: "\<exists>i j. snd (stage_on_dict lib lg m Add_correlation_id ev w) = advance i j w"
    using i by (auto simp: add_correlation_id_eq)
  have b: "\<exists>i j. snd (stage_on_dict lib lg m Add_timestamp ev w) = advance i j w"
  proof -
    have "snd (stage_on_dict lib lg m Add_timestamp ev w) = advance 0 1 w"
      by (simp add: add_timestamp_eq advance_def)
    then show ?thesis by blast
  qed
  show ?thesis
    using a b advance_self [of w] by (cases p) (simp_all split: sum.split)
qed

lemma stage_on_text_advance:
  "\<exists>i j. snd (stage_on_text p x w) = advance i j w"
proof -
  obtain i where i: "snd (get_correlation_id w) = advance i 0 w"
    using get_correlation_id_advance by blast
  have a: "\<exists>i j. snd (stage_on_text Add_correlation_id x w) = advance i j w"
    using i by auto
  have b: "\<exists>i j. snd (stage_on_text Add_timestamp x w) = advance i j w"
    using utcnow_advance [of w] by auto
  show ?thesis
    using a b advance_self [of w] by (cases p) simp_all
qed

lemma apply_processor_advance:
  "\<exists>i j. snd (apply_processor lib lg m p s) = advance i j (snd s)"
proof -
  obtain out w where s: "s = (out, w)" by (cases s)
  show ?thesis
  proof (cases out)
    case (Inl err)
    then show ?thesis using advance_self [of w] by (simp add: s)
  next
    case (Inr x)
    then show ?thesis
      using stage_on_dict_advance [of lib lg m p _ w] stage_on_text_advance [of p x w]
      by (cases x) (simp_all add: s)
  qed
qed

lemma run_processors_advance:
  "\<exists>i j. snd (run_processors lib lg m ps s) = advance i j (snd s)"
proof (induction ps arbitrary: s)
  case Nil
  show ?case using advance_self [of "snd s"] by (simp add: run_processors_def)
next
  case (Cons p ps)
  obtain i j where 1: "snd (apply_processor lib lg m p s) = advance i j (snd s)"
    using apply_processor_advance by blast
  obtain k l where 2: "snd (run_processors lib lg m ps (apply_processor lib lg m p s))
      = advance k l (snd (apply_processor lib lg m p s))"
    using Cons.IH by blast
  have "snd (run_processors lib lg m (p # ps) s) = advance (i + k) (j + l) (snd s)"
    using 1 2 by (simp add: run_processors_def)
  then show ?case by blast
qed

lemma first_use_simps [simp]:
  "correlation_id_var (first_use lg w) = correlation_id_var w"
  "entropy (first_use lg w) = entropy w" "clock (first_use lg w) = clock w"
  "drawn (first_use lg w) = drawn w" "ticks (first_use lg w) = ticks w"
  "config (first_use lg w) = config w" "contextvars (first_use lg w) = contextvars w"
  "calls (first_use lg w) = calls w" "sink (first_use lg w) = sink w"
  "sent (first_use lg w) = sent w"
  by (simp_all add: first_use_def)

lemma effective_config_first_use [simp]:
  "effective_config lg' (first_use lg w) = effective_config lg' w"
  by (simp add: effective_config_def first_use_def split: option.split)

lemma print_out_world:
  "\<exists>out. snd (print_out x w) = w\<lparr>sink := sink w @ out\<rparr>"
proof (cases x)
  case (Dict ev)
  then have "snd (print_out x w) = w\<lparr>sink := sink w @ []\<rparr>" by simp
  then show ?thesis by blast
next
  case (JSON_text y)
  then have "snd (print_out x w) = w\<lparr>sink := sink w @ [x]\<rparr>" by simp
  then show ?thesis by blast
next
  case (Console_text ev)
  then have "snd (print_out x w) = w\<lparr>sink := sink w @ [x]\<rparr>" by simp
  then show ?thesis by blast
qed


lemma logger_call_filtered:
  assumes "level_of m < min_level (effective_config lg w)"
  shows "logger_call lib lg m ev kw w
     = (None, (first_use lg w)\<lparr>calls := calls w @
            [\<lparr>call_logger = lg, call_method = m, call_event = ev, call_kwargs = kw,
              call_raised = None\<rparr>]\<rparr>)"
  using assms by (simp add: logger_call_def)

lemma logger_call_chain:
  assumes "\<not> level_of m < min_level (effective_config lg w)"
    and "run_processors lib lg m (processors (effective_config lg w))
          (Inr (Dict (dict_set ''event'' (VStr ev)
               (if m = Exception then setdefault ''exc_info'' (VBool True) kw else kw))),
           first_use lg w) = (out, w2)"
    and "(case out of Inl err \<Rightarrow> (Some err, w2) | Inr x \<Rightarrow> print_out x w2) = (r, w3)"
  shows "logger_call lib lg m ev kw w
     = (r, w3\<lparr>calls := calls w3 @
            [\<lparr>call_logger = lg, call_method = m, call_event = ev, call_kwargs = kw,
              call_raised = r\<rparr>]\<rparr>)"
  using assms by (simp add: logger_call_def Let_def)


lemma logger_call_world:
  "\<exists>i j out. snd (logger_call lib lg m ev kw w)
     = (advance i j (first_use lg w))\<lparr>sink := sink w @ out,
          calls := calls w @
            [\<lparr>call_logger = lg, call_method = m, call_event = ev, call_kwargs = kw,
              call_raised = fst (logger_call lib lg m ev kw w)\<rparr>]\<rparr>"
proof (cases "level_of m < min_level (effective_config lg w)")
  case True
  have "snd (logger_call lib lg m ev kw w)
     = (advance 0 0 (first_use lg w))\<lparr>sink := sink w @ [],
          calls := calls w @
            [\<lparr>call_logger = lg, call_method = m, call_event = ev, call_kwargs = kw,
              call_raised = fst (logger_call lib lg m ev kw w)\<rparr>]\<rparr>"
    unfolding logger_call_filtered [OF True] by simp
  then show ?thesis by blast
next
  case False
  let ?ev0 = "dict_set ''event'' (VStr ev)
               (if m = Exception then setdefault ''exc_info'' (VBool True) kw else kw)"
  let ?w1 = "first_use lg w"
  let ?run = "run_processors lib lg m (processors (effective_config lg w)) (Inr (Dict ?ev0), ?w1)"
  obtain out w2 where r: "?run = (out, w2)" by (cases ?run)
  obtain i j where "snd ?run = advance i j (snd (Inr (Dict ?ev0) :: error + payload, ?w1))"
    using run_processors_advance by blast
  then have w2: "w2 = advance i j ?w1" using r by simp
  obtain rs w3 where p: "(case out of Inl err \<Rightarrow> (Some err, w2) | Inr x \<Rightarrow> print_out x w2) = (rs, w3)"
    by (cases "(case out of Inl err \<Rightarrow> (Some err, w2) | Inr x \<Rightarrow> print_out x w2)")
  have "\<exists>o'. w3 = w2\<lparr>sink := sink w2 @ o'\<rparr>"
  proof (cases out)
    case (Inl err)
    then have "w3 = w2\<lparr>sink := sink w2 @ []\<rparr>" using p by simp
    then show ?thesis by blast
  next
    case (Inr x)
    then have "w3 = snd (print_out x w2)" using p by simp
    then show ?thesis using print_out_world [of x w2] by simp
  qed
  then obtain o' where w3: "w3 = w2\<lparr>sink := sink w2 @ o'\<rparr>" by blast
  have "snd (logger_call lib lg m ev kw w)
     = (advance i j (first_use lg w))\<lparr>sink := sink w @ o',
          calls := calls w @
            [\<lparr>call_logger = lg, call_method = m, call_event = ev, call_kwargs = kw,
              call_raised = fst (logger_call lib lg m ev kw w)\<rparr>]\<rparr>"
    unfolding logger_call_chain [OF False r p] by (simp add: w3 w2)
  then show ?thesis by blast
qed
lemma logger_call_frame:
  "calls (snd (logger_call lib lg m ev kw w))
     = calls w @ [\<lparr>call_logger = lg, call_method = m, call_event = ev, call_kwargs = kw,
                   call_raised = fst (logger_call lib lg m ev kw w)\<rparr>]"
  "sent (snd (logger_call lib lg m ev kw w)) = sent w"
  "config (snd (logger_call lib lg m ev kw w)) = config w"
  "correlation_id_var (snd (logger_call lib lg m ev kw w)) = correlation_id_var w"
  "entropy (snd (logger_call lib lg m ev kw w)) = entropy w"
  "clock (snd (logger_call lib lg m ev kw w)) = clock w"
  "effective_config lg' (snd (logger_call lib lg m ev kw w)) = effective_config lg' w"
proof -
  obtain i j out where e: "snd (logger_call lib lg m ev kw w)
     = (advance i j (first_use lg w))\<lparr>sink := sink w @ out,
          calls := calls w @
            [\<lparr>call_logger = lg, call_method = m, call_event = ev, call_kwargs = kw,
              call_raised = fst (logger_call lib lg m ev kw w)\<rparr>]\<rparr>"
    using logger_call_world by blast
  have "effective_config lg' (snd (logger_call lib lg m ev kw w))
          = effective_config lg' (first_use lg w)"
    unfolding e by (simp add: effective_config_def split: option.split)
  then show "effective_config lg' (snd (logger_call lib lg m ev kw w)) = effective_config lg' w"
    by simp
  show
    "calls (snd (logger_call lib lg m ev kw w))
     = calls w @ [\<lparr>call_logger = lg, call_method = m, call_event = ev, call_kwargs = kw,
                   call_raised = fst (logger_call lib lg m ev kw w)\<rparr>]"
    "sent (snd (logger_call lib lg m ev kw w)) = sent w"
    "config (snd (logger_call lib lg m ev kw w)) = config w"
    "correlation_id_var (snd (logger_call lib lg m ev kw w)) = correlation_id_var w"
    "entropy (snd (logger_call lib lg m ev kw w)) = entropy w"
    "clock (snd (logger_call lib lg m ev kw w)) = clock w"
    unfolding e by simp_all
qed

lemma set_correlation_id_frame:
  "calls (snd (set_correlation_id c w)) = calls w"
  "sent (snd (set_correlation_id c w)) = sent w"
  "config (snd (set_correlation_id c w)) = config w"
  "cached (snd (set_correlation_id c w)) = cached w"
  "sink (snd (set_correlation_id c w)) = sink w"
  by (cases c; simp add: set_correlation_id_def fresh_uuid_def)+

lemma set_correlation_id_effective:
  "effective_config lg (snd (set_correlation_id c w)) = effective_config lg w"
  by (simp add: effective_config_def set_correlation_id_frame split: option.split)


lemma start_statuses_simps [simp]:
  "start_statuses [] = []"
  "start_statuses (m # ms)
     = (if msg_type m = ''http.response.start'' then status m # start_statuses ms
        else start_statuses ms)"
  by (simp_all add: start_statuses_def)

lemma send_wrapper_eq:
  "send_wrapper m (st, w)
     = ((if msg_type m = ''http.response.start'' then status m else st),
        w\<lparr>sent := sent w @ [m]\<rparr>)"
  by (simp add: send_wrapper_def send_def)

lemma run_app_wrapper:
  "run_app lib send_wrapper k st sc w = (out, st', sc', w') \<Longrightarrow>
     \<exists>ms. sent w' = sent w @ ms
          \<and> st' = (if start_statuses ms = [] then st else last (start_statuses ms))"
proof (induction k arbitrary: st sc w)
  case Return
  then have "sent w' = sent w @ [] \<and> st' = (if start_statuses [] = [] then st else last (start_statuses []))"
    by simp
  then show ?case by blast
next
  case (Raise e)
  then have "sent w' = sent w @ [] \<and> st' = (if start_statuses [] = [] then st else last (start_statuses []))"
    by simp
  then show ?case by blast
next
  case (Send m k)
  let ?st1 = "if msg_type m = ''http.response.start'' then status m else st"
  let ?w1 = "w\<lparr>sent := sent w @ [m]\<rparr>"
  have "run_app lib send_wrapper k ?st1 sc ?w1 = (out, st', sc', w')"
    using Send.prems by (simp add: send_wrapper_eq)
  then obtain ms where ms: "sent w' = sent ?w1 @ ms"
      "st' = (if start_statuses ms = [] then ?st1 else last (start_statuses ms))"
    using Send.IH by blast
  have "sent w' = sent w @ (m # ms)
        \<and> st' = (if start_statuses (m # ms) = [] then st else last (start_statuses (m # ms)))"
    using ms by simp
  then show ?case by blast
next
  case (Log lg m ev kw k)
  obtain r w1 where l: "logger_call lib lg m ev kw w = (r, w1)"
    by (cases "logger_call lib lg m ev kw w")
  have "run_app lib send_wrapper (k r) st sc w1 = (out, st', sc', w')"
    using Log.prems l by simp
  then obtain ms where ms: "sent w' = sent w1 @ ms"
      "st' = (if start_statuses ms = [] then st else last (start_statuses ms))"
    using Log.IH [of "k r" st sc w1] by blast
  have "sent w1 = sent w"
    using logger_call_frame(2) [of lib lg m ev kw w] l by simp
  then show ?case using ms by auto
next
  case (Rebind c k)
  have "run_app lib send_wrapper k st sc (snd (set_correlation_id c w)) = (out, st', sc', w')"
    using Rebind.prems by simp
  then obtain ms where ms: "sent w' = sent (snd (set_correlation_id c w)) @ ms"
      "st' = (if start_statuses ms = [] then st else last (start_statuses ms))"
    using Rebind.IH by blast
  then show ?case by (auto simp: set_correlation_id_frame)
next
  case (Mutate f k)
  have "run_app lib send_wrapper k st (f sc) w = (out, st', sc', w')"
    using Mutate.prems by simp
  then show ?case using Mutate.IH by blast
qed

lemma decode_wf: "utf8_wf (map of_char bs) \<Longrightarrow> decode bs = Some bs"
  by (simp add: decode_def)

lemma decode_not_wf: "\<not> utf8_wf (map of_char bs) \<Longrightarrow> decode bs = None"
  by (simp add: decode_def)

lemma extract_correlation_id_ok:
  assumes "utf8_wf (map of_char (correlation_header scope))"
  shows "\<exists>i. extract_correlation_id scope w
           = (Inr (request_id scope w),
              (advance i 0 w)\<lparr>correlation_id_var := Some (request_id scope w)\<rparr>)"
proof (cases "correlation_header scope = ''''")
  case True
  have "extract_correlation_id scope w
          = (Inr (request_id scope w),
             (advance 1 0 w)\<lparr>correlation_id_var := Some (request_id scope w)\<rparr>)"
    using decode_wf [OF assms] True
    by (simp add: extract_correlation_id_def correlation_header_def request_id_def
          set_correlation_id_def fresh_uuid_def str_uuid_nonempty advance_def)
  then show ?thesis by blast
next
  case False
  have "extract_correlation_id scope w
          = (Inr (request_id scope w),
             (advance 0 0 w)\<lparr>correlation_id_var := Some (request_id scope w)\<rparr>)"
    using decode_wf [OF assms] False
    by (simp add: extract_correlation_id_def correlation_header_def request_id_def
          set_correlation_id_def)
  then show ?thesis by blast
qed

lemma extract_correlation_id_fails:
  assumes "\<not> utf8_wf (map of_char (correlation_header scope))"
  shows "extract_correlation_id scope w = (Inl UnicodeDecodeError, w)"
  using decode_not_wf [OF assms]
  by (simp add: extract_correlation_id_def correlation_header_def)

lemma log_request_ok:
  assumes "utf8_wf (map of_char (query_bytes scope))"
  shows "log_request lib scope w
           = (case fst (logger_call lib ''request'' Info ''request_started''
                          (call_kwargs (started_call scope None)) (advance 0 1 w)) of
                None \<Rightarrow> Inr (clock w (ticks w))
              | Some err \<Rightarrow> Inl err,
              snd (logger_call lib ''request'' Info ''request_started''
                     (call_kwargs (started_call scope None)) (advance 0 1 w)))"
  using decode_wf [OF assms]
  by (simp add: log_request_def query_bytes_def utcnow_def started_call_def advance_def
        split_beta split: option.split)

lemma log_request_fails:
  assumes "\<not> utf8_wf (map of_char (query_bytes scope))"
  shows "log_request lib scope w = (Inl UnicodeDecodeError, advance 0 1 w)"
  using decode_not_wf [OF assms]
  by (simp add: log_request_def query_bytes_def utcnow_def advance_def)

lemma log_completed_eq:
  "log_completed lib scope t0 sc w
     = logger_call lib ''request'' Info ''request_completed''
         (call_kwargs (completed_call scope sc (elapsed_micros (clock w (ticks w)) t0) None))
         (advance 0 1 w)"
  by (simp add: log_completed_def utcnow_def completed_call_def advance_def)

lemma log_completed_frame:
  "calls (snd (log_completed lib scope t0 sc w))
     = calls w @ [completed_call scope sc (elapsed_micros (clock w (ticks w)) t0)
                    (fst (log_completed lib scope t0 sc w))]"
  "sent (snd (log_completed lib scope t0 sc w)) = sent w"
  "correlation_id_var (snd (log_completed lib scope t0 sc w)) = correlation_id_var w"
  unfolding log_completed_eq by (simp_all add: logger_call_frame completed_call_def)

lemma middleware_undecodable:
  assumes "scope_type scope = ''http''" "\<not> decodable scope"
  shows "fst (LoggerMiddleware_call lib app scope w) = Inl UnicodeDecodeError"
    and "calls (snd (LoggerMiddleware_call lib app scope w)) = calls w"
    and "sink (snd (LoggerMiddleware_call lib app scope w)) = sink w"
    and "sent (snd (LoggerMiddleware_call lib app scope w)) = sent w"
proof -
  have r: "fst (LoggerMiddleware_call lib app scope w) = Inl UnicodeDecodeError
      \<and> calls (snd (LoggerMiddleware_call lib app scope w)) = calls w
      \<and> sink (snd (LoggerMiddleware_call lib app scope w)) = sink w
      \<and> sent (snd (LoggerMiddleware_call lib app scope w)) = sent w"
  proof (cases "utf8_wf (map of_char (correlation_header scope))")
    case False
    show ?thesis
      using assms(1) extract_correlation_id_fails [OF False, of w]
      by (simp add: LoggerMiddleware_call_def)
  next
    case True
    then have q: "\<not> utf8_wf (map of_char (query_bytes scope))"
      using assms(2) by (simp add: decodable_def)
    obtain i where 1: "extract_correlation_id scope w
      = (Inr (request_id scope w), (advance i 0 w)\<lparr>correlation_id_var := Some (request_id scope w)\<rparr>)"
      using extract_correlation_id_ok [OF True] by blast
    show ?thesis
      using assms(1) 1 log_request_fails [OF q]
      by (simp add: LoggerMiddleware_call_def)
  qed
  from r show "fst (LoggerMiddleware_call lib app scope w) = Inl UnicodeDecodeError"
    and "calls (snd (LoggerMiddleware_call lib app scope w)) = calls w"
    and "sink (snd (LoggerMiddleware_call lib app scope w)) = sink w"
    and "sent (snd (LoggerMiddleware_call lib app scope w)) = sent w"
    by simp_all
qed

lemma handler_entry_Some:
  assumes "handler_entry lib scope w = Some (t0, w2)"
  shows "scope_type scope = ''http''" and "decodable scope" and "sent w2 = sent w"
    and "calls w2 = calls w @ [started_call scope None]"
    and "correlation_id_var w2 = Some (request_id scope w)"
proof -
  have http: "scope_type scope = ''http''"
    using assms by (simp add: handler_entry_def split: if_splits)
  have h: "utf8_wf (map of_char (correlation_header scope))"
  proof (rule ccontr)
    assume n: "\<not> utf8_wf (map of_char (correlation_header scope))"
    show False
      using assms http extract_correlation_id_fails [OF n, of w] by (simp add: handler_entry_def)
  qed
  obtain i where 1: "extract_correlation_id scope w
      = (Inr (request_id scope w), (advance i 0 w)\<lparr>correlation_id_var := Some (request_id scope w)\<rparr>)"
    using extract_correlation_id_ok [OF h] by blast
  let ?w1 = "(advance i 0 w)\<lparr>correlation_id_var := Some (request_id scope w)\<rparr>"
  have e: "(case log_request lib scope ?w1 of
              (Inl err, w2) \<Rightarrow> None | (Inr start_time, w2) \<Rightarrow> Some (start_time, w2))
           = Some (t0, w2)"
    using assms http 1 by (simp add: handler_entry_def)
  have q: "utf8_wf (map of_char (query_bytes scope))"
  proof (rule ccontr)
    assume n: "\<not> utf8_wf (map of_char (query_bytes scope))"
    show False using e log_request_fails [OF n, of lib ?w1] by simp
  qed
  let ?L = "logger_call lib ''request'' Info ''request_started''
              (call_kwargs (started_call scope None)) (advance 0 1 ?w1)"
  have l: "fst ?L = None \<and> w2 = snd ?L"
    using e unfolding log_request_ok [OF q] by (cases "fst ?L") simp_all
  show "scope_type scope = ''http''" by (rule http)
  show "decodable scope" using h q by (simp add: decodable_def)
  show "sent w2 = sent w" using l by (simp add: logger_call_frame)
  show "calls w2 = calls w @ [started_call scope None]"
    using l by (simp add: logger_call_frame started_call_def)
  show "correlation_id_var w2 = Some (request_id scope w)"
    using l by (simp add: logger_call_frame)
qed

lemma call_app_eq:
  assumes "run_app lib send_wrapper (app scope) 500 scope w = (out, sc, scope1, w3)"
  shows "call_app lib app scope w
     = (case out of
          None \<Rightarrow> (None, sc, scope1, w3)
        | Some e \<Rightarrow>
            if is_Exception e
            then (case fst (logger_call lib ''request'' Exception ''request_error''
                              [(''error'', VStr (str_e e))] w3) of
                    None \<Rightarrow> Some (Propagated e) | Some err \<Rightarrow> Some err,
                  sc, scope1,
                  snd (logger_call lib ''request'' Exception ''request_error''
                         [(''error'', VStr (str_e e))] w3))
            else (Some (Propagated e), sc, scope1, w3))"
  using assms by (simp add: call_app_def split_beta split: option.split)

lemma middleware_entered:
  assumes "handler_entry lib scope w = Some (t0, w2)"
    and "call_app lib app scope w2 = (leaving, sc, scope1, w3)"
  shows "LoggerMiddleware_call lib app scope w
     = (case fst (log_completed lib scope1 t0 sc w3) of
          Some err \<Rightarrow> Inl err
        | None \<Rightarrow> (case leaving of None \<Rightarrow> Inr () | Some err \<Rightarrow> Inl err),
        snd (log_completed lib scope1 t0 sc w3))"
proof -
  have http: "scope_type scope = ''http''"
    using assms(1) by (simp add: handler_entry_def split: if_splits)
  obtain r1 w1 where 1: "extract_correlation_id scope w = (r1, w1)"
    by (cases "extract_correlation_id scope w")
  obtain cid where r1: "r1 = Inr cid"
    using assms(1) http 1 by (cases r1) (simp_all add: handler_entry_def)
  obtain r2 w2' where 2: "log_request lib scope w1 = (r2, w2')"
    by (cases "log_request lib scope w1")
  have r2: "r2 = Inr t0 \<and> w2' = w2"
    using assms(1) http 1 r1 2 by (cases r2) (simp_all add: handler_entry_def)
  show ?thesis
    using http 1 r1 2 r2 assms(2)
    by (simp add: LoggerMiddleware_call_def split_beta split: option.split)
qed


lemma handler_run_Some:
  assumes "handler_run lib app scope w = Some (out, sc, scope1, w3)"
  shows "\<exists>t0 w2. handler_entry lib scope w = Some (t0, w2)
           \<and> run_app lib send_wrapper (app scope) 500 scope w2 = (out, sc, scope1, w3)"
  using assms by (cases "handler_entry lib scope w") (auto simp: handler_run_def)

lemma call_app_result:
  assumes "run_app lib send_wrapper (app scope) 500 scope w = (out, sc, scope1, w3)"
  shows "\<exists>leaving w4. call_app lib app scope w = (leaving, sc, scope1, w4) \<and> sent w4 = sent w3
          \<and> (out = None \<longrightarrow> leaving = None \<and> calls w4 = calls w3)
          \<and> (\<forall>e. out = Some e \<and> \<not> is_Exception e \<longrightarrow>
                leaving = Some (Propagated e) \<and> calls w4 = calls w3)
          \<and> (\<forall>e. out = Some e \<and> is_Exception e \<longrightarrow>
                (\<exists>r1. calls w4 = calls w3 @ [error_call e r1]
                   \<and> leaving = Some (case r1 of None \<Rightarrow> Propagated e | Some err \<Rightarrow> err)))"
proof (cases out)
  case None
  then have "call_app lib app scope w = (None, sc, scope1, w3)"
    using call_app_eq [where app = app and scope = scope, OF assms] by simp
  then show ?thesis using None by simp
next
  case (Some e)
  show ?thesis
  proof (cases "is_Exception e")
    case False
    then have "call_app lib app scope w = (Some (Propagated e), sc, scope1, w3)"
      using call_app_eq [where app = app and scope = scope, OF assms] Some by simp
    then show ?thesis using Some False by simp
  next
    case True
    let ?E = "logger_call lib ''request'' Exception ''request_error''
                [(''error'', VStr (str_e e))] w3"
    have c: "call_app lib app scope w
        = (Some (case fst ?E of None \<Rightarrow> Propagated e | Some err \<Rightarrow> err), sc, scope1, snd ?E)"
      using call_app_eq [where app = app and scope = scope, OF assms] Some True by (simp split: option.split)
    have "calls (snd ?E) = calls w3 @ [error_call e (fst ?E)]"
      by (simp add: logger_call_frame error_call_def)
    moreover have "sent (snd ?E) = sent w3"
      by (simp add: logger_call_frame)
    ultimately show ?thesis using c Some True by auto
  qed
qed

lemma observed_status_eq:
  "observed_status ms = (if start_statuses ms = [] then 500 else last (start_statuses ms))"
  by (simp add: observed_status_def)

lemma get_items_simps:
  "scope_type get_items = ''http''" "correlation_header get_items = ''abc-123''"
  "query_bytes get_items = ''page=2''" "decodable get_items"
  by (simp_all add: get_items_def correlation_header_def query_bytes_def decodable_def
        dict_of_def dict_get_def dict_set_def)

lemma get_items_bad_id_simps:
  "scope_type get_items_bad_id = ''http''" "\<not> decodable get_items_bad_id"
  "correlation_header get_items_bad_id = [CHR 0xFF]"
  by (simp_all add: get_items_bad_id_def get_items_def correlation_header_def decodable_def
        dict_of_def dict_get_def dict_set_def)

lemma quiet_world_simps:
  "correlation_id_var quiet_world = None" "entropy quiet_world n = of_nat n"
  "drawn quiet_world = 0" "clock quiet_world n = second_clock n" "ticks quiet_world = 0"
  "config quiet_world = \<lparr>processors = build_processors True, min_level = 50,
     cache_logger_on_first_use = True\<rparr>"
  "cached quiet_world = []" "calls quiet_world = []" "sink quiet_world = []"
  "sent quiet_world = []"
  by (simp_all add: quiet_world_def world0_def)

lemma plain_world_simps:
  "correlation_id_var plain_world = None" "entropy plain_world n = of_nat n"
  "drawn plain_world = 0" "clock plain_world n = second_clock n" "ticks plain_world = 0"
  "config plain_world = plain_config" "cached plain_world = []" "contextvars plain_world = []"
  "calls plain_world = []" "sink plain_world = []" "sent plain_world = []"
  by (simp_all add: plain_world_def world0_def)

lemma plain_config_simps:
  "processors plain_config
     = [Merge_contextvars, Add_correlation_id, Add_timestamp, Add_log_level, JSONRenderer]"
  "min_level plain_config = 0" "\<not> cache_logger_on_first_use plain_config"
  by (simp_all add: plain_config_def)

lemmas middleware_defs =
  LoggerMiddleware_call_def handler_run_def handler_entry_def extract_correlation_id_def
  log_request_def call_app_def log_completed_def logger_call_def effective_config_def
  first_use_def utcnow_def decode_def dict_of_def dict_get_def dict_set_def setdefault_def
  set_correlation_id_def send_wrapper_def send_def run_processors_def add_correlation_id_eq
  add_timestamp_eq merge_contextvars_def get_correlation_id_def var_get_def Let_def split_beta


section \<open>The middleware: events, status code and exceptions\<close>

text \<open>
  C1. A request whose \<open>x-correlation-id\<close> value is the single byte \<open>0xFF\<close> is an HTTP
  request, yet the middleware raises \<open>UnicodeDecodeError\<close> from the decoding of the
  header, before the start event and outside the \<open>try\<close>: it makes no call on its
  logger, prints nothing, and never calls the wrapped application.
\<close>

theorem undecodable_header_emits_no_event:
  "scope_type get_items_bad_id = ''http''
   \<and> fst (LoggerMiddleware_call lib app get_items_bad_id w) = Inl UnicodeDecodeError
   \<and> calls (snd (LoggerMiddleware_call lib app get_items_bad_id w)) = calls w
   \<and> sink (snd (LoggerMiddleware_call lib app get_items_bad_id w)) = sink w
   \<and> sent (snd (LoggerMiddleware_call lib app get_items_bad_id w)) = sent w"
  using middleware_undecodable [OF get_items_bad_id_simps(1,2), of lib app w]
  by (simp add: get_items_bad_id_simps)

text \<open>
  C2, as stated, fails for an application that sends two \<open>http.response.start\<close>
  messages, with status 200 and then 404, under a configuration whose chain prints:
  both messages reach the server in that order, the application returns, and the
  completion event, in the call and as printed, holds the last status, 404, not the
  first.
\<close>

theorem completion_holds_last_status_not_first:
  "outcome (LoggerMiddleware_call lib_id app_two_starts get_items plain_world)
     = (Inr (),
        [(''request_started'', None, None), (''request_completed'', Some (VInt 404), None)],
        [(Some (VStr ''request_started''), Some (VStr ''abc-123''), None, None),
         (Some (VStr ''request_completed''), Some (VStr ''abc-123''), Some (VInt 404), None)],
        [response_start 200, response_start 404],
        Some ''abc-123'')"
  by (simp add: middleware_defs get_items_def app_two_starts_def response_start_def
        plain_world_simps plain_config_simps outcome_def call_summary_def printed_summary_def)

text \<open>
  C2, amended. Whenever the middleware gets as far as calling the wrapped application,
  the status it holds when the application ends is 500 when no \<open>http.response.start\<close>
  message went through the wrapper (whether the application raised or returned) and
  otherwise the status of the last such message; the last call on its logger is the
  completion event with that status, made on every way out of the application; nothing
  is sent after the application has ended; and the wrapper hands each message to the
  original \<open>send\<close> as it is.
\<close>

theorem completion_status_code:
  assumes "handler_run lib app scope w = Some (out, sc, scope1, w3)"
  shows "sc = observed_status (drop (length (sent w)) (sent w3))
         \<and> sent (snd (LoggerMiddleware_call lib app scope w)) = sent w3
         \<and> (\<exists>d r. last (calls (snd (LoggerMiddleware_call lib app scope w)))
                    = completed_call scope1 sc d r)
         \<and> sent (snd (send_wrapper m s)) = sent (snd s) @ [m]"
proof -
  obtain t0 w2 where entry: "handler_entry lib scope w = Some (t0, w2)"
    and run: "run_app lib send_wrapper (app scope) 500 scope w2 = (out, sc, scope1, w3)"
    using handler_run_Some [OF assms] by blast
  obtain ms where ms: "sent w3 = sent w2 @ ms"
      "sc = (if start_statuses ms = [] then 500 else last (start_statuses ms))"
    using run_app_wrapper [OF run] by blast
  have "sent w2 = sent w" by (rule handler_entry_Some(3) [OF entry])
  then have 1: "sc = observed_status (drop (length (sent w)) (sent w3))"
    using ms by (simp add: observed_status_eq)
  obtain leaving w4 where ca: "call_app lib app scope w2 = (leaving, sc, scope1, w4)"
    and s4: "sent w4 = sent w3"
    using call_app_result [where app = app and scope = scope, OF run] by blast
  let ?C = "log_completed lib scope1 t0 sc w4"
  have r: "snd (LoggerMiddleware_call lib app scope w) = snd ?C"
    unfolding middleware_entered [OF entry ca] by simp
  have 2: "sent (snd (LoggerMiddleware_call lib app scope w)) = sent w3"
    unfolding r using s4 by (simp add: log_completed_frame)
  have "last (calls (snd (LoggerMiddleware_call lib app scope w)))
          = completed_call scope1 sc (elapsed_micros (clock w4 (ticks w4)) t0) (fst ?C)"
    unfolding r by (simp add: log_completed_frame)
  then have 3: "\<exists>d r. last (calls (snd (LoggerMiddleware_call lib app scope w)))
                    = completed_call scope1 sc d r"
    by blast
  have 4: "sent (snd (send_wrapper m s)) = sent (snd s) @ [m]"
    by (simp add: send_wrapper_def send_def)
  show ?thesis using 1 2 3 4 by blast
qed

theorem completion_status_code_witness:
  "map_option fst (handler_run lib_id app_ok get_items plain_world) = Some None
   \<and> map_of (call_kwargs (last (calls (snd (LoggerMiddleware_call lib_id app_ok get_items plain_world)))))
       ''status_code'' = Some (VInt 200)
   \<and> sent (snd (LoggerMiddleware_call lib_id app_ok get_items plain_world))
       = [response_start 200, response_body]
   \<and> map_option fst (handler_run lib_id app_raises get_items quiet_world)
       = Some (Some (Exc True ''boom''))
   \<and> map_of (call_kwargs (last (calls (snd (LoggerMiddleware_call lib_id app_raises get_items quiet_world)))))
       ''status_code'' = Some (VInt 500)
   \<and> sent (snd (LoggerMiddleware_call lib_id app_raises get_items quiet_world)) = []"
proof -
  have "\<exists>w3. handler_run lib_id app_ok get_items plain_world = Some (None, 200, get_items, w3)
               \<and> sent w3 = [response_start 200, response_body]"
    by (simp add: middleware_defs get_items_def app_ok_def response_start_def response_body_def
          plain_world_simps plain_config_simps)
  then obtain w3 where a: "handler_run lib_id app_ok get_items plain_world
        = Some (None, 200, get_items, w3)" and a3: "sent w3 = [response_start 200, response_body]"
    by auto
  have "\<exists>v3. handler_run lib_id app_raises get_items quiet_world
               = Some (Some (Exc True ''boom''), 500, get_items, v3) \<and> sent v3 = []"
    by (simp add: middleware_defs get_items_def app_raises_def quiet_world_simps)
  then obtain v3 where b: "handler_run lib_id app_raises get_items quiet_world
        = Some (Some (Exc True ''boom''), 500, get_items, v3)" and b3: "sent v3 = []"
    by auto
  obtain d r where a4: "last (calls (snd (LoggerMiddleware_call lib_id app_ok get_items plain_world)))
        = completed_call get_items 200 d r"
    and a5: "sent (snd (LoggerMiddleware_call lib_id app_ok get_items plain_world)) = sent w3"
    using completion_status_code [OF a, where m = response_body and s = "(0, plain_world)"]
    by blast
  obtain d' r' where b4: "last (calls (snd (LoggerMiddleware_call lib_id app_raises get_items quiet_world)))
        = completed_call get_items 500 d' r'"
    and b5: "sent (snd (LoggerMiddleware_call lib_id app_raises get_items quiet_world)) = sent v3"
    using completion_status_code [OF b, where m = response_body and s = "(0, plain_world)"]
    by blast
  show ?thesis
    using a a3 a4 a5 b b3 b4 b5 by (simp add: completed_call_def)
qed

text \<open>
  C7, as stated, fails for an exception that is not an instance of \<open>Exception\<close>, such
  as the cancellation of the request: under a configuration whose chain prints, the
  middleware makes the start and the completion call and no other, prints those two
  events and no error event, and raises the application's exception.
\<close>

theorem cancellation_gets_no_error_event:
  "\<not> is_Exception (Exc False ''cancelled'')
   \<and> outcome (LoggerMiddleware_call lib_id app_cancelled get_items plain_world)
     = (Inl (Propagated (Exc False ''cancelled'')),
        [(''request_started'', None, None), (''request_completed'', Some (VInt 500), None)],
        [(Some (VStr ''request_started''), Some (VStr ''abc-123''), None, None),
         (Some (VStr ''request_completed''), Some (VStr ''abc-123''), Some (VInt 500), None)],
        [],
        Some ''abc-123'')"
  by (simp add: middleware_defs get_items_def app_cancelled_def plain_world_simps
        plain_config_simps outcome_def call_summary_def printed_summary_def)

text \<open>
  C7, amended. When the wrapped application raises an instance of \<open>Exception\<close>, the
  middleware makes, right after what the application did, one call of the logger's
  \<open>exception\<close> method for the event \<open>request_error\<close> whose \<open>error\<close> field is the
  string form of the exception, and then the completion call; when both calls return,
  it raises the application's exception itself. When the application raises an
  exception that is not an instance of \<open>Exception\<close>, the middleware makes the
  completion call only, and when that call returns it raises the application's
  exception itself. In neither case does the middleware return normally.
\<close>

theorem handler_exception_logged_and_reraised:
  assumes "handler_run lib app scope w = Some (Some e, sc, scope1, w3)"
  shows "\<exists>d r1 r2.
           (is_Exception e \<longrightarrow>
              calls (snd (LoggerMiddleware_call lib app scope w))
                = calls w3 @ [error_call e r1, completed_call scope1 sc d r2]
              \<and> (r1 = None \<and> r2 = None \<longrightarrow>
                   fst (LoggerMiddleware_call lib app scope w) = Inl (Propagated e)))
           \<and> (\<not> is_Exception e \<longrightarrow>
                calls (snd (LoggerMiddleware_call lib app scope w))
                  = calls w3 @ [completed_call scope1 sc d r2]
                \<and> (r2 = None \<longrightarrow>
                     fst (LoggerMiddleware_call lib app scope w) = Inl (Propagated e)))
           \<and> fst (LoggerMiddleware_call lib app scope w) \<noteq> Inr ()"
proof -
  obtain t0 w2 where entry: "handler_entry lib scope w = Some (t0, w2)"
    and run: "run_app lib send_wrapper (app scope) 500 scope w2 = (Some e, sc, scope1, w3)"
    using handler_run_Some [OF assms] by blast
  obtain leaving w4 where ca: "call_app lib app scope w2 = (leaving, sc, scope1, w4)"
    and n: "\<not> is_Exception e \<longrightarrow> leaving = Some (Propagated e) \<and> calls w4 = calls w3"
    and y: "is_Exception e \<longrightarrow>
              (\<exists>r1. calls w4 = calls w3 @ [error_call e r1]
                 \<and> leaving = Some (case r1 of None \<Rightarrow> Propagated e | Some err \<Rightarrow> err))"
    using call_app_result [where app = app and scope = scope, OF run] by blast
  let ?C = "log_completed lib scope1 t0 sc w4"
  let ?d = "elapsed_micros (clock w4 (ticks w4)) t0"
  have r: "LoggerMiddleware_call lib app scope w
     = (case fst ?C of
          Some err \<Rightarrow> Inl err
        | None \<Rightarrow> (case leaving of None \<Rightarrow> Inr () | Some err \<Rightarrow> Inl err),
        snd ?C)"
    by (rule middleware_entered [OF entry ca])
  have c: "calls (snd (LoggerMiddleware_call lib app scope w))
             = calls w4 @ [completed_call scope1 sc ?d (fst ?C)]"
    unfolding r by (simp add: log_completed_frame)
  show ?thesis
  proof (cases "is_Exception e")
    case True
    then obtain r1 where r1: "calls w4 = calls w3 @ [error_call e r1]"
        "leaving = Some (case r1 of None \<Rightarrow> Propagated e | Some err \<Rightarrow> err)"
      using y by blast
    have f1: "calls (snd (LoggerMiddleware_call lib app scope w))
            = calls w3 @ [error_call e r1, completed_call scope1 sc ?d (fst ?C)]"
      using c r1(1) by simp
    have f2: "r1 = None \<and> fst ?C = None \<longrightarrow>
        fst (LoggerMiddleware_call lib app scope w) = Inl (Propagated e)"
      unfolding r using r1(2) by simp
    have f3: "fst (LoggerMiddleware_call lib app scope w) \<noteq> Inr ()"
      unfolding r using r1(2) by (simp split: option.split)
    show ?thesis
      by (rule exI [where x = ?d], rule exI [where x = r1], rule exI [where x = "fst ?C"])
        (use True f1 f2 f3 in simp)
  next
    case False
    then have l: "leaving = Some (Propagated e)" "calls w4 = calls w3"
      using n by simp_all
    have f1: "calls (snd (LoggerMiddleware_call lib app scope w))
            = calls w3 @ [completed_call scope1 sc ?d (fst ?C)]"
      using c l(2) by simp
    have f2: "fst ?C = None \<longrightarrow>
        fst (LoggerMiddleware_call lib app scope w) = Inl (Propagated e)"
      unfolding r using l(1) by simp
    have f3: "fst (LoggerMiddleware_call lib app scope w) \<noteq> Inr ()"
      unfolding r using l(1) by (simp split: option.split)
    show ?thesis
      by (rule exI [where x = ?d], rule exI [where x = None], rule exI [where x = "fst ?C"])
        (use False f1 f2 f3 in simp)
  qed
qed


theorem handler_exception_logged_and_reraised_witness:
  "map_option fst (handler_run lib_id app_raises get_items plain_world)
     = Some (Some (Exc True ''boom''))
   \<and> outcome (LoggerMiddleware_call lib_id app_raises get_items plain_world)
     = (Inl (Propagated (Exc True ''boom'')),
        [(''request_started'', None, None), (''request_error'', None, None),
         (''request_completed'', Some (VInt 500), None)],
        [(Some (VStr ''request_started''), Some (VStr ''abc-123''), None, None),
         (Some (VStr ''request_error''), Some (VStr ''abc-123''), None, Some (VStr ''boom'')),
         (Some (VStr ''request_completed''), Some (VStr ''abc-123''), Some (VInt 500), None)],
        [],
        Some ''abc-123'')
   \<and> map_option fst (handler_run lib_id app_raises get_items quiet_world)
     = Some (Some (Exc True ''boom''))
   \<and> fst (LoggerMiddleware_call lib_id app_raises get_items quiet_world)
       = Inl (Propagated (Exc True ''boom''))
   \<and> map call_summary (calls (snd (LoggerMiddleware_call lib_id app_raises get_items quiet_world)))
       = [(''request_started'', None, None), (''request_error'', None, None),
          (''request_completed'', Some (VInt 500), None)]"
proof -
  let ?e = "Exc True ''boom''"
  let ?P = "LoggerMiddleware_call lib_id app_raises get_items plain_world"
  let ?Q = "LoggerMiddleware_call lib_id app_raises get_items quiet_world"
  have "\<exists>w3. handler_run lib_id app_raises get_items plain_world
                 = Some (Some ?e, 500, get_items, w3)
               \<and> map call_summary (calls w3) = [(''request_started'', None, None)]"
    by (simp add: middleware_defs get_items_def app_raises_def plain_world_simps
          plain_config_simps call_summary_def)
  then obtain w3 where a: "handler_run lib_id app_raises get_items plain_world
        = Some (Some ?e, 500, get_items, w3)"
    and a3: "map call_summary (calls w3) = [(''request_started'', None, None)]"
    by auto
  have "\<exists>v3. handler_run lib_id app_raises get_items quiet_world
                 = Some (Some ?e, 500, get_items, v3)
               \<and> map call_summary (calls v3) = [(''request_started'', None, None)]"
    by (simp add: middleware_defs get_items_def app_raises_def quiet_world_simps
          call_summary_def)
  then obtain v3 where b: "handler_run lib_id app_raises get_items quiet_world
        = Some (Some ?e, 500, get_items, v3)"
    and b3: "map call_summary (calls v3) = [(''request_started'', None, None)]"
    by auto
  have po: "outcome ?P
     = (Inl (Propagated ?e),
        [(''request_started'', None, None), (''request_error'', None, None),
         (''request_completed'', Some (VInt 500), None)],
        [(Some (VStr ''request_started''), Some (VStr ''abc-123''), None, None),
         (Some (VStr ''request_error''), Some (VStr ''abc-123''), None, Some (VStr ''boom'')),
         (Some (VStr ''request_completed''), Some (VStr ''abc-123''), Some (VInt 500), None)],
        [],
        Some ''abc-123'')"
    by (simp add: middleware_defs get_items_def app_raises_def plain_world_simps
          plain_config_simps outcome_def call_summary_def printed_summary_def)
  have qr: "map call_raised (calls (snd ?Q)) = [None, None, None]"
    by (simp add: middleware_defs get_items_def app_raises_def quiet_world_simps)
  obtain d' r1' r2' where q1: "calls (snd ?Q)
        = calls v3 @ [error_call ?e r1', completed_call get_items 500 d' r2']"
    and q2: "r1' = None \<and> r2' = None \<longrightarrow> fst ?Q = Inl (Propagated ?e)"
    using handler_exception_logged_and_reraised [OF b] by auto
  have l: "length (calls v3) = 1"
    using arg_cong [OF b3, of length] by simp
  have "r1' = None \<and> r2' = None"
    using qr l unfolding q1 by (simp add: error_call_def completed_call_def)
  then have q: "fst ?Q = Inl (Propagated ?e)" using q2 by simp
  have qc: "map call_summary (calls (snd ?Q))
       = [(''request_started'', None, None), (''request_error'', None, None),
          (''request_completed'', Some (VInt 500), None)]"
    using qr l unfolding q1
    by (simp add: b3 error_call_def completed_call_def call_summary_def)
  show ?thesis using a b po q qc by simp
qed

section \<open>The installed processor chain\<close>

lemma run_build_processors:
  "\<exists>w'. run_processors lib lg m (build_processors json_logs) (Inr (Dict ev), w)
           = (Inl AttributeError, w') \<and> sink w' = sink w \<and> sent w' = sent w"
  by (cases json_logs)
     (simp_all add: run_processors_def build_processors_def add_correlation_id_eq
        add_timestamp_eq get_correlation_id_def fresh_uuid_def)

lemma configure_logging_config:
  assumes "configure_logging level json_logs service_name environment w = Inr w'"
  shows "processors (config w') = build_processors json_logs"
    and "cache_logger_on_first_use (config w')" and "cached w' = cached w"
    and "sink w' = sink w" and "getLevelName level = Some (min_level (config w'))"
  using assms by (auto simp: configure_logging_def split: option.splits)

lemma configured_logger_raises:
  assumes "configure_logging level json_logs service_name environment w = Inr w'"
    and "map_of (cached w) lg = None"
    and "\<not> level_of m < min_level (config w')"
  shows "fst (logger_call lib lg m event kw w') = Some AttributeError"
    and "sink (snd (logger_call lib lg m event kw w')) = sink w"
proof -
  note c = configure_logging_config [OF assms(1)]
  have e: "effective_config lg w' = config w'"
    using assms(2) c(3) by (simp add: effective_config_def)
  let ?ev0 = "dict_set ''event'' (VStr event)
               (if m = Exception then setdefault ''exc_info'' (VBool True) kw else kw)"
  obtain w2 where r: "run_processors lib lg m (build_processors json_logs)
        (Inr (Dict ?ev0), first_use lg w') = (Inl AttributeError, w2)"
    and s: "sink w2 = sink (first_use lg w')"
    using run_build_processors [of lib lg m json_logs ?ev0 "first_use lg w'"] by blast
  have l: "logger_call lib lg m event kw w'
     = (Some AttributeError, w2\<lparr>calls := calls w2 @
            [\<lparr>call_logger = lg, call_method = m, call_event = event, call_kwargs = kw,
              call_raised = Some AttributeError\<rparr>]\<rparr>)"
    by (rule logger_call_chain [where out = "Inl AttributeError" and ?w2.0 = w2])
       (use assms(3) e c(1) r in simp_all)
  show "fst (logger_call lib lg m event kw w') = Some AttributeError"
    unfolding l by simp
  show "sink (snd (logger_call lib lg m event kw w')) = sink w"
    unfolding l using s c(4) by simp
qed

lemma configured_world_simps:
  "correlation_id_var configured_world = None" "entropy configured_world n = of_nat n"
  "drawn configured_world = 0" "clock configured_world n = second_clock n"
  "ticks configured_world = 0"
  "config configured_world = \<lparr>processors = build_processors True, min_level = 20,
     cache_logger_on_first_use = True\<rparr>"
  "cached configured_world = []" "calls configured_world = []" "sink configured_world = []"
  "sent configured_world = []"
  by (simp_all add: configured_world_def world0_def)

lemma warning_world_simps:
  "correlation_id_var warning_world = None" "entropy warning_world n = of_nat n"
  "drawn warning_world = 0" "clock warning_world n = second_clock n"
  "ticks warning_world = 0"
  "config warning_world = \<lparr>processors = build_processors True, min_level = 30,
     cache_logger_on_first_use = True\<rparr>"
  "cached warning_world = []" "calls warning_world = []" "sink warning_world = []"
  "sent warning_world = []"
  by (simp_all add: warning_world_def world0_def)

lemma configure_logging_examples:
  "configure_logging ''INFO'' True ''app'' ''development'' world0 = Inr configured_world"
  "configure_logging ''WARNING'' True ''app'' ''development'' world0 = Inr warning_world"
  "configure_logging ''CRITICAL'' True ''app'' ''development'' world0 = Inr quiet_world"
  by (simp_all add: configure_logging_def getLevelName_def configured_world_def
        warning_world_def quiet_world_def world0_def dict_set_def)

text \<open>
  Under the configuration that \<open>configure_logging\<close> installs by default, an HTTP
  request with a well-formed header is bound its correlation id and then fails at the
  start event: the middleware raises \<open>AttributeError\<close>, prints nothing and never
  calls the application. Under the level \<open>WARNING\<close> the start and completion events
  are filtered, and when the application raises an instance of \<open>Exception\<close> the
  error event raises \<open>AttributeError\<close>, which the middleware raises in place of the
  application's exception.
\<close>

lemma default_configuration_fails_request:
  "outcome (LoggerMiddleware_call lib app get_items configured_world)
     = (Inl AttributeError, [(''request_started'', None, Some AttributeError)], [], [],
        Some ''abc-123'')"
  by (simp add: middleware_defs get_items_def configured_world_simps build_processors_def
        outcome_def call_summary_def printed_summary_def)

lemma error_event_replaces_exception:
  "outcome (LoggerMiddleware_call lib app_raises get_items warning_world)
     = (Inl AttributeError,
        [(''request_started'', None, None), (''request_error'', None, Some AttributeError),
         (''request_completed'', Some (VInt 500), None)],
        [], [], Some ''abc-123'')"
  by (simp add: middleware_defs get_items_def app_raises_def warning_world_simps
        build_processors_def outcome_def call_summary_def printed_summary_def)

text \<open>
  A logger keeps the configuration of its first use. After \<open>configure_logging\<close> with
  the level \<open>CRITICAL\<close>, one call on the logger \<open>request\<close>, and a second
  \<open>configure_logging\<close> with the level \<open>INFO\<close>, a call of \<open>info\<close> on that logger
  is still filtered, while the same call on a logger not used before raises.
\<close>

lemma first_use_keeps_configuration:
  "(case configure_logging ''INFO'' True ''app'' ''development''
           (snd (logger_call lib ''request'' Info ''a'' [] quiet_world)) of
      Inl err \<Rightarrow> None
    | Inr w \<Rightarrow>
        Some (fst (logger_call lib ''request'' Info ''b'' [] w),
              fst (logger_call lib ''other'' Info ''b'' [] w),
              sink (snd (logger_call lib ''request'' Info ''b'' [] w))))
   = Some (None, Some AttributeError, [])"
  by (simp add: configure_logging_def getLevelName_def logger_call_def effective_config_def
        first_use_def quiet_world_simps build_processors_def run_processors_def
        add_correlation_id_eq add_timestamp_eq Let_def split_beta)

text \<open>
  C8. \<open>configure_logging\<close> with its defaults installs the nine stages in the order
  the claim gives, the JSON renderer last. The first four of them leave an event with
  the bound context, the correlation id, the timestamp and the level. The fifth, the
  logger-name stage, raises \<open>AttributeError\<close> on the logger that the same call
  installs, so a call that passes the level filter raises after four stages: the four
  stages after it never run, nothing is rendered and nothing is printed.
\<close>

theorem installed_chain_raises_at_logger_name:
  "configure_logging ''INFO'' True ''app'' ''development'' world0 = Inr configured_world
   \<and> processors (config configured_world)
       = [Merge_contextvars, Add_correlation_id, Add_timestamp, Add_log_level, Add_logger_name,
          StackInfoRenderer, Format_exc_info, UnicodeDecoder, JSONRenderer]
   \<and> (case fst (run_processors lib ''app'' Info
                   (take 4 (processors (config configured_world)))
                   (Inr (Dict [(''event'', VStr ''hello'')]), configured_world)) of
         Inr (Dict ev) \<Rightarrow>
           map (map_of ev)
             [''event'', ''service'', ''environment'', ''correlation_id'', ''timestamp'', ''level'']
       | other \<Rightarrow> [])
       = [Some (VStr ''hello''), Some (VStr ''app''), Some (VStr ''development''),
          Some (VStr ''00000000-0000-4000-8000-000000000000''),
          Some (VStr ''2024-01-01T00:00:00Z''), Some (VStr ''info'')]
   \<and> fst (run_processors lib ''app'' Info
             (take 5 (processors (config configured_world)))
             (Inr (Dict [(''event'', VStr ''hello'')]), configured_world))
       = Inl AttributeError
   \<and> fst (logger_call lib ''app'' Info ''hello'' [] configured_world) = Some AttributeError
   \<and> sink (snd (logger_call lib ''app'' Info ''hello'' [] configured_world)) = []"
proof -
  have c: "configure_logging ''INFO'' True ''app'' ''development'' world0 = Inr configured_world"
    by (rule configure_logging_examples(1))
  have n: "\<not> level_of Info < min_level (config configured_world)"
    by (simp add: configured_world_simps)
  have k: "map_of (cached world0) ''app'' = None"
    by (simp add: world0_simps)
  have cv: "contextvars configured_world
      = [(''service'', VStr ''app''), (''environment'', VStr ''development'')]"
    by (simp add: configured_world_def)
  have t: "clock configured_world (ticks configured_world) = second_clock 0"
    by (simp add: configured_world_simps)
  have 4: "fst (run_processors lib ''app'' Info
             (take 4 (processors (config configured_world)))
             (Inr (Dict [(''event'', VStr ''hello'')]), configured_world))
       = Inr (Dict [(''event'', VStr ''hello''), (''service'', VStr ''app''),
                    (''environment'', VStr ''development''),
                    (''correlation_id'', VStr ''00000000-0000-4000-8000-000000000000''),
                    (''timestamp'', VStr ''2024-01-01T00:00:00Z''), (''level'', VStr ''info'')])"
    by (simp add: configured_world_simps build_processors_def run_processors_def cv t
          merge_contextvars_def setdefault_def dict_set_def add_correlation_id_eq add_timestamp_eq
          get_correlation_id_def var_get_def fresh_uuid_def uuid_0 iso_sec)
  have 5: "fst (run_processors lib ''app'' Info
             (take 5 (processors (config configured_world)))
             (Inr (Dict [(''event'', VStr ''hello'')]), configured_world))
       = Inl AttributeError"
    by (simp add: configured_world_simps build_processors_def run_processors_def
          add_correlation_id_eq add_timestamp_eq)
  show ?thesis
    unfolding 4 5
    using c configured_logger_raises [OF c k n, of lib "''hello''" "[]"]
    by (simp add: configured_world_simps build_processors_def world0_simps)
qed

section \<open>The correlation id of a request\<close>

lemma header_value_bound:
  assumes "utf8_wf (map of_char (correlation_header scope))"
  shows "fst (extract_correlation_id scope w) = Inr (request_id scope w)"
    and "correlation_id_var (snd (extract_correlation_id scope w)) = Some (request_id scope w)"
    and "request_id scope w \<noteq> ''''"
    and "map_of (fst (add_correlation_id lg m ev (snd (extract_correlation_id scope w))))
           ''correlation_id'' = Some (VStr (request_id scope w))"
proof -
  obtain i where 1: "extract_correlation_id scope w
      = (Inr (request_id scope w), (advance i 0 w)\<lparr>correlation_id_var := Some (request_id scope w)\<rparr>)"
    using extract_correlation_id_ok [OF assms] by blast
  show n: "request_id scope w \<noteq> ''''"
    by (simp add: request_id_def str_uuid_nonempty)
  show "fst (extract_correlation_id scope w) = Inr (request_id scope w)"
    and "correlation_id_var (snd (extract_correlation_id scope w)) = Some (request_id scope w)"
    using 1 by simp_all
  show "map_of (fst (add_correlation_id lg m ev (snd (extract_correlation_id scope w))))
           ''correlation_id'' = Some (VStr (request_id scope w))"
    using 1 n by (simp add: add_correlation_id_eq map_of_dict_set get_correlation_id_def var_get_def)
qed

text \<open>
  C6. A request whose \<open>x-correlation-id\<close> header has the non-empty value of the single
  byte \<open>0xFF\<close> is not bound that value, nor a generated one: the decoding of the
  header raises \<open>UnicodeDecodeError\<close>, and the middleware raises it and leaves the
  whole state, the context variable included, as it found it.
\<close>

theorem undecodable_header_binds_nothing:
  "correlation_header get_items_bad_id \<noteq> ''''
   \<and> fst (extract_correlation_id get_items_bad_id w) = Inl UnicodeDecodeError
   \<and> LoggerMiddleware_call lib app get_items_bad_id w = (Inl UnicodeDecodeError, w)"
proof -
  have n: "\<not> utf8_wf (map of_char (correlation_header get_items_bad_id))"
    by (simp add: get_items_bad_id_simps)
  show ?thesis
    using extract_correlation_id_fails [OF n, of w]
    by (simp add: LoggerMiddleware_call_def get_items_bad_id_simps)
qed


end
